theory Spec2Isabelle
  imports Main "HOL-Library.FSet" "HOL-Library.Word"
begin

section \<open>Values handled by the server\<close>

text \<open>
  The program is \<^verbatim>\<open>websocket-test-server.py\<close>: one coroutine \<^verbatim>\<open>handle_client\<close> per
  connection, two globals (\<^verbatim>\<open>connected_clients\<close>, \<^verbatim>\<open>message_count\<close>) and the flag
  \<^verbatim>\<open>args.respond\<close>.

  A message delivered by the websocket iterator is a \<^verbatim>\<open>str\<close> (text frame) or a
  \<^verbatim>\<open>bytes\<close> object (binary frame). The text of a frame is modelled as a HOL string, one
  \<open>char\<close> per character; slicing and \<^verbatim>\<open>len\<close> count characters. The library decodes a text
  frame from UTF-8, so its text holds no surrogate.
\<close>

datatype payload = Text string | Binary string

text \<open>
  A \<^verbatim>\<open>str\<close> built by \<^verbatim>\<open>json.loads\<close> is a list of code points: a JSON text can
  escape a lone surrogate (backslash, \<^verbatim>\<open>ud800\<close>), which no HOL \<open>char\<close> stands for. \<open>lit\<close> gives the
  code points of a string literal of the source.
\<close>

type_synonym pystr = "nat list"

definition lit :: "string \<Rightarrow> pystr" where
  "lit s = map of_char s"

definition is_surrogate :: "nat \<Rightarrow> bool" where
  "is_surrogate c \<longleftrightarrow> 0xD800 \<le> c \<and> c \<le> 0xDFFF"

text \<open>
  What \<^verbatim>\<open>json.loads\<close> returns: \<^verbatim>\<open>None\<close>, \<^verbatim>\<open>bool\<close>, \<^verbatim>\<open>int\<close>, \<^verbatim>\<open>float\<close>,
  \<^verbatim>\<open>str\<close>, \<^verbatim>\<open>list\<close> or \<^verbatim>\<open>dict\<close> with string keys. A float is carried as its 64 bits:
  the handler never computes with it. A dict is an association list read with \<open>map_of\<close>.
\<close>

datatype json =
    JNull
  | JBool bool
  | JInt int
  | JFloat "64 word"
  | JStr pystr
  | JArr "json list"
  | JObj "(pystr \<times> json) list"

text \<open>
  The exceptions that can travel through \<^verbatim>\<open>handle_client\<close>. \<open>ConnectionClosed\<close> carries
  the close code and reason. \<^verbatim>\<open>json.loads\<close> raises \<open>JSONDecodeError\<close> on text that is not
  JSON and \<open>UnicodeDecodeError\<close> on bytes that are not valid UTF-8, UTF-16 or UTF-32;
  \<^verbatim>\<open>print\<close> raises \<open>UnicodeEncodeError\<close> on text that standard output cannot encode.
  \<open>BaseError\<close> stands for a \<^verbatim>\<open>BaseException\<close> that is not an \<^verbatim>\<open>Exception\<close> (for instance
  \<^verbatim>\<open>asyncio.CancelledError\<close>), which no \<^verbatim>\<open>except\<close> clause of the handler catches.
\<close>

datatype exn =
    ConnectionClosed int string
  | JSONDecodeError
  | UnicodeDecodeError
  | UnicodeEncodeError
  | TypeError
  | KeyError
  | AttributeError
  | OtherError string
  | BaseError string

subsection \<open>Python operators on decoded values\<close>

text \<open>\<^verbatim>\<open>k in s\<close> for two strings: \<open>k\<close> occurs in \<open>s\<close> as a contiguous substring.\<close>

fun is_substr :: "'a list \<Rightarrow> 'a list \<Rightarrow> bool" where
  "is_substr k [] = (k = [])"
| "is_substr k (c # cs) = (take (length k) (c # cs) = k \<or> is_substr k cs)"

text \<open>
  \<^verbatim>\<open>k in v\<close> with \<open>k\<close> a string literal: key membership for a dict, element membership for
  a list, substring test for a string; every other value is not iterable.
\<close>

fun py_in :: "pystr \<Rightarrow> json \<Rightarrow> exn + bool" where
  "py_in k (JObj kv) = Inr (map_of kv k \<noteq> None)"
| "py_in k (JArr xs) = Inr (JStr k \<in> set xs)"
| "py_in k (JStr s) = Inr (is_substr k s)"
| "py_in k JNull = Inl TypeError"
| "py_in k (JBool b) = Inl TypeError"
| "py_in k (JInt i) = Inl TypeError"
| "py_in k (JFloat f) = Inl TypeError"

text \<open>
  \<^verbatim>\<open>v[k]\<close> with \<open>k\<close> a string literal: a dict is looked up (\<^verbatim>\<open>KeyError\<close> when the key is
  missing); a list or a string wants an integer index; nothing else is subscriptable.
\<close>

fun py_getitem :: "json \<Rightarrow> pystr \<Rightarrow> exn + json" where
  "py_getitem (JObj kv) k = (case map_of kv k of None \<Rightarrow> Inl KeyError | Some v \<Rightarrow> Inr v)"
| "py_getitem (JArr xs) k = Inl TypeError"
| "py_getitem (JStr s) k = Inl TypeError"
| "py_getitem JNull k = Inl TypeError"
| "py_getitem (JBool b) k = Inl TypeError"
| "py_getitem (JInt i) k = Inl TypeError"
| "py_getitem (JFloat f) k = Inl TypeError"

text \<open>\<^verbatim>\<open>v.get(k, d)\<close>: only a dict has the method.\<close>

fun py_get :: "json \<Rightarrow> pystr \<Rightarrow> json \<Rightarrow> exn + json" where
  "py_get (JObj kv) k d = (case map_of kv k of None \<Rightarrow> Inr d | Some v \<Rightarrow> Inr v)"
| "py_get (JArr xs) k d = Inl AttributeError"
| "py_get (JStr s) k d = Inl AttributeError"
| "py_get JNull k d = Inl AttributeError"
| "py_get (JBool b) k d = Inl AttributeError"
| "py_get (JInt i) k d = Inl AttributeError"
| "py_get (JFloat f) k d = Inl AttributeError"

section \<open>Standard output\<close>

text \<open>
  One constructor per \<^verbatim>\<open>print\<close> of \<^verbatim>\<open>handle_client\<close>, holding the values the f-string
  interpolates. The wall-clock prefix \<^verbatim>\<open>[%H:%M:%S]\<close> is left out.

  \<^verbatim>\<open>print\<close> encodes its text for standard output and raises when the stream cannot
  encode it. The prints of lines 39 to 43 show values chosen by the sender, so what
  formatting and printing a value raises is a parameter \<open>pr\<close> of the extraction
  (\<open>None\<close>: the line is written). In the handler the stream is standard output as Python
  opens it by default, UTF-8 with the strict error handler, open for writing: it refuses
  exactly the surrogates. The text of a \<^verbatim>\<open>str\<close> value is the value itself; the text of a
  number, \<^verbatim>\<open>None\<close> or a bool is ASCII; the text of a list or dict shows the strings inside
  with \<^verbatim>\<open>repr\<close>, which escapes a surrogate. Every other text the handler prints is ASCII
  (labels, counters, \<^verbatim>\<open>json.dumps\<close> with its default \<^verbatim>\<open>ensure_ascii\<close>) or was decoded from
  UTF-8 by the library (the message, the close reason), so those prints write their line.
\<close>

datatype line =
    NewConnection string nat string
  | Waiting string
  | MessageHeader int string
  | Dump json
  | ExtractedHeader
  | TopicLine json
  | LatitudeLine json
  | LongitudeLine json
  | AltitudeLine json
  | RawHeader int string
  | RawText string
  | ResponseSent string
  | ClosedLine string int string
  | ErrorLine string exn
  | Disconnected string nat

fun utf8_print :: "json \<Rightarrow> exn option" where
  "utf8_print (JStr s) = (if list_ex is_surrogate s then Some UnicodeEncodeError else None)"
| "utf8_print v = None"

section \<open>The telemetry extraction (lines 35 to 43)\<close>

text \<open>
  An expression evaluates to a value or raises (\<open>Inl\<close>). \<^verbatim>\<open>and\<close> evaluates left to right
  and stops at the first false operand, so \<^verbatim>\<open>data['op']\<close> is read only when the key test
  before it answered true.
\<close>

text \<open>Line 35: \<^verbatim>\<open>'op' in data and data['op'] == 'publish' and 'msg' in data\<close>.\<close>

definition is_publish :: "json \<Rightarrow> exn + bool" where
  "is_publish data =
    (case py_in (lit ''op'') data of
       Inl e \<Rightarrow> Inl e
     | Inr b \<Rightarrow> if \<not> b then Inr False else
        (case py_getitem data (lit ''op'') of
           Inl e \<Rightarrow> Inl e
         | Inr v \<Rightarrow> if v \<noteq> JStr (lit ''publish'') then Inr False else py_in (lit ''msg'') data))"

text \<open>Line 37: \<^verbatim>\<open>'latitude' in msg and 'longitude' in msg\<close>.\<close>

definition has_position :: "json \<Rightarrow> exn + bool" where
  "has_position msg =
    (case py_in (lit ''latitude'') msg of
       Inl e \<Rightarrow> Inl e
     | Inr b \<Rightarrow> if \<not> b then Inr False else py_in (lit ''longitude'') msg)"

text \<open>
  The prints come one after the other, so an exception raised half-way leaves the lines
  before it on the output: a block returns the lines printed and the exception raised, if
  any. The f-string reads the value first; then \<^verbatim>\<open>print\<close> writes the line or raises.
  Lines 42 and 43:
\<close>

definition print_altitude :: "(json \<Rightarrow> exn option) \<Rightarrow> json \<Rightarrow> line list \<times> exn option" where
  "print_altitude pr msg =
    (case py_in (lit ''altitude'') msg of
       Inl e \<Rightarrow> ([], Some e)
     | Inr b \<Rightarrow> if \<not> b then ([], None) else
        (case py_getitem msg (lit ''altitude'') of
           Inl e \<Rightarrow> ([], Some e)
         | Inr al \<Rightarrow>
            (case pr al of
               Some e \<Rightarrow> ([], Some e)
             | None \<Rightarrow> ([AltitudeLine al], None))))"

text \<open>Lines 38 to 43, the body of the inner \<^verbatim>\<open>if\<close>.\<close>

definition print_gps ::
  "(json \<Rightarrow> exn option) \<Rightarrow> json \<Rightarrow> json \<Rightarrow> line list \<times> exn option" where
  "print_gps pr data msg =
    (case py_get data (lit ''topic'') (JStr (lit ''N/A'')) of
       Inl e \<Rightarrow> ([ExtractedHeader], Some e)
     | Inr t \<Rightarrow>
    (case pr t of
       Some e \<Rightarrow> ([ExtractedHeader], Some e)
     | None \<Rightarrow>
    (case py_getitem msg (lit ''latitude'') of
       Inl e \<Rightarrow> ([ExtractedHeader, TopicLine t], Some e)
     | Inr la \<Rightarrow>
    (case pr la of
       Some e \<Rightarrow> ([ExtractedHeader, TopicLine t], Some e)
     | None \<Rightarrow>
    (case py_getitem msg (lit ''longitude'') of
       Inl e \<Rightarrow> ([ExtractedHeader, TopicLine t, LatitudeLine la], Some e)
     | Inr lo \<Rightarrow>
    (case pr lo of
       Some e \<Rightarrow> ([ExtractedHeader, TopicLine t, LatitudeLine la], Some e)
     | None \<Rightarrow>
    (case print_altitude pr msg of
       (ls, r) \<Rightarrow>
         ([ExtractedHeader, TopicLine t, LatitudeLine la, LongitudeLine lo] @ ls, r))))))))"

text \<open>Lines 35 to 43.\<close>

definition extract_gps :: "(json \<Rightarrow> exn option) \<Rightarrow> json \<Rightarrow> line list \<times> exn option" where
  "extract_gps pr data =
    (case is_publish data of
       Inl e \<Rightarrow> ([], Some e)
     | Inr b \<Rightarrow> if \<not> b then ([], None) else
        (case py_getitem data (lit ''msg'') of
           Inl e \<Rightarrow> ([], Some e)
         | Inr msg \<Rightarrow>
            (case has_position msg of
               Inl e \<Rightarrow> ([], Some e)
             | Inr p \<Rightarrow> if \<not> p then ([], None) else print_gps pr data msg)))"

section \<open>The raw-text display (line 47)\<close>

text \<open>
  \<^verbatim>\<open>message[:200] + ('...' if len(message) > 200 else '')\<close>. For a \<^verbatim>\<open>str\<close> this is the
  first 200 characters and the marker when the message is longer. For \<^verbatim>\<open>bytes\<close> the slice
  is a \<^verbatim>\<open>bytes\<close> object and the right operand a \<^verbatim>\<open>str\<close>, so \<^verbatim>\<open>+\<close> raises
  \<^verbatim>\<open>TypeError\<close>, also when the right operand is the empty string.
\<close>

fun raw_text :: "payload \<Rightarrow> exn + string" where
  "raw_text (Text m) = Inr (take 200 m @ (if length m > 200 then ''...'' else ''''))"
| "raw_text (Binary m) = Inl TypeError"

section \<open>Decoding and displaying one message (lines 29 to 47)\<close>

text \<open>
  \<^verbatim>\<open>json.loads\<close> is library code: it is a parameter \<open>loads\<close> of the model, returning the
  decoded value or the exception it raises. The inner \<^verbatim>\<open>try\<close> covers the decoding, the
  display and the extraction, and catches \<^verbatim>\<open>json.JSONDecodeError\<close> only; every other
  exception leaves the block, a \<^verbatim>\<open>UnicodeEncodeError\<close> of a print of the extraction
  included. \<open>n\<close> is the value of \<^verbatim>\<open>message_count\<close> and \<open>cid\<close> the handler's
  \<^verbatim>\<open>client_id\<close>. The extraction prints to standard output, \<open>utf8_print\<close>.
\<close>

definition raw_display :: "int \<Rightarrow> string \<Rightarrow> payload \<Rightarrow> line list \<times> exn option" where
  "raw_display n cid message =
    (case raw_text message of
       Inl e \<Rightarrow> ([RawHeader n cid], Some e)
     | Inr t \<Rightarrow> ([RawHeader n cid, RawText t], None))"

definition display ::
  "(payload \<Rightarrow> exn + json) \<Rightarrow> int \<Rightarrow> string \<Rightarrow> payload \<Rightarrow> line list \<times> exn option" where
  "display loads n cid message =
    (case loads message of
       Inl e \<Rightarrow> (if e = JSONDecodeError then raw_display n cid message else ([], Some e))
     | Inr data \<Rightarrow>
        (case extract_gps utf8_print data of
           (ls, None) \<Rightarrow> ([MessageHeader n cid, Dump data] @ ls, None)
         | (ls, Some e) \<Rightarrow>
             if e = JSONDecodeError
             then (case raw_display n cid message of
                     (rs, r) \<Rightarrow> ([MessageHeader n cid, Dump data] @ ls @ rs, r))
             else ([MessageHeader n cid, Dump data] @ ls, Some e)))"

section \<open>The server state\<close>

text \<open>The command line: \<^verbatim>\<open>args.host\<close>, \<^verbatim>\<open>args.port\<close>, \<^verbatim>\<open>args.respond\<close>.\<close>

record args =
  host :: string
  port :: int
  respond :: bool

text \<open>The acknowledgment built at lines 51 to 55, before \<^verbatim>\<open>json.dumps\<close>.\<close>

record response =
  status :: string
  message_id :: int
  timestamp :: string

text \<open>
  A websocket connection object is identified by a number. A running \<^verbatim>\<open>handle_client\<close>
  coroutine is suspended at one of its two \<^verbatim>\<open>await\<close> points: in the \<^verbatim>\<open>async for\<close>
  (\<open>Reading\<close>) or in \<^verbatim>\<open>websocket.send\<close> (\<open>Sending\<close>, with the response in flight). Its
  local variable \<^verbatim>\<open>client_id\<close> is kept with it.
\<close>

type_synonym ws = nat

datatype phase = Reading | Sending response

record task =
  client_id :: string
  phase :: phase

text \<open>
  The two globals, the suspended coroutines, standard output, the acknowledgments whose
  \<^verbatim>\<open>send\<close> returned, and the exceptions that left \<^verbatim>\<open>handle_client\<close> uncaught.
\<close>

record server =
  connected_clients :: "ws fset"
  message_count :: int
  tasks :: "ws \<rightharpoonup> task"
  stdout :: "line list"
  wire :: "(ws \<times> response) list"
  escaped :: "(ws \<times> exn) list"

definition init :: server where
  "init = \<lparr>connected_clients = {||}, message_count = 0, tasks = Map.empty,
            stdout = [], wire = [], escaped = []\<rparr>"

definition say :: "line list \<Rightarrow> server \<Rightarrow> server" where
  "say ls s = s\<lparr>stdout := stdout s @ ls\<rparr>"

subsection \<open>Decimal rendering of a length\<close>

fun digit :: "nat \<Rightarrow> char" where
  "digit d = char_of (48 + d)"

function str_nat :: "nat \<Rightarrow> string" where
  "str_nat n = (if n < 10 then [digit n] else str_nat (n div 10) @ [digit (n mod 10)])"
  by pat_completeness auto
termination
  by (relation "measure id") auto

section \<open>The handler, one atomic piece per stretch between two awaits\<close>

text \<open>
  Lines 18 to 25: the label is computed from the size of the registry before the
  connection is added; then the coroutine waits for the first message.
\<close>

definition handle_client_enter :: "ws \<Rightarrow> string \<Rightarrow> nat \<Rightarrow> server \<Rightarrow> server" where
  "handle_client_enter websocket rhost rport s =
    (let cid = ''Client-'' @ str_nat (fcard (connected_clients s) + 1);
         s1 = say [NewConnection rhost rport cid] s;
         s2 = s1\<lparr>connected_clients := finsert websocket (connected_clients s1)\<rparr>;
         s3 = say [Waiting cid] s2
     in s3\<lparr>tasks := (tasks s3)(websocket \<mapsto> \<lparr>client_id = cid, phase = Reading\<rparr>)\<rparr>)"

text \<open>
  Lines 59 to 65, reached with the exception that ended the \<^verbatim>\<open>try\<close> block, or with
  \<open>None\<close> when the \<^verbatim>\<open>async for\<close> ended by itself. \<^verbatim>\<open>ConnectionClosed\<close> and every other
  \<^verbatim>\<open>Exception\<close> are printed and swallowed; a \<open>BaseError\<close> is not caught. The
  \<^verbatim>\<open>finally\<close> clause runs in all cases; \<^verbatim>\<open>set.remove\<close> raises \<^verbatim>\<open>KeyError\<close> on a missing
  element, which replaces the exception in flight and skips the last print.
\<close>

fun except_clauses :: "string \<Rightarrow> exn option \<Rightarrow> line list \<times> exn option" where
  "except_clauses cid None = ([], None)"
| "except_clauses cid (Some (ConnectionClosed c r)) = ([ClosedLine cid c r], None)"
| "except_clauses cid (Some (BaseError x)) = ([], Some (BaseError x))"
| "except_clauses cid (Some e) = ([ErrorLine cid e], None)"

definition handle_client_exit :: "ws \<Rightarrow> string \<Rightarrow> exn option \<Rightarrow> server \<Rightarrow> server" where
  "handle_client_exit websocket cid raised s =
    (case except_clauses cid raised of (ls, pending) \<Rightarrow>
      (let s1 = say ls s;
           gone = s1\<lparr>tasks := (tasks s1)(websocket := None)\<rparr>
       in if websocket |\<in>| connected_clients s1
          then (let s2 = gone\<lparr>connected_clients := connected_clients gone |-| {|websocket|}\<rparr>;
                    s3 = say [Disconnected cid (fcard (connected_clients s2))] s2
                in (case pending of
                      None \<Rightarrow> s3
                    | Some e \<Rightarrow> s3\<lparr>escaped := escaped s3 @ [(websocket, e)]\<rparr>))
          else gone\<lparr>escaped := escaped gone @ [(websocket, KeyError)]\<rparr>))"

text \<open>
  Lines 26 to 56 for one message: the counter is incremented first; the message is
  decoded and displayed; then, with \<^verbatim>\<open>--respond\<close>, the response is built from the global
  counter and \<^verbatim>\<open>websocket.send\<close> is awaited. \<open>now\<close> is the value of
  \<^verbatim>\<open>datetime.now().isoformat()\<close> at line 54. An exception from the display ends the
  handler.
\<close>

definition handle_client_message ::
  "args \<Rightarrow> (payload \<Rightarrow> exn + json) \<Rightarrow> ws \<Rightarrow> string \<Rightarrow> payload \<Rightarrow> string \<Rightarrow> server \<Rightarrow> server" where
  "handle_client_message a loads websocket cid message now s =
    (let s1 = s\<lparr>message_count := message_count s + 1\<rparr>
     in (case display loads (message_count s1) cid message of (ls, raised) \<Rightarrow>
      (let s2 = say ls s1
       in (case raised of
             Some e \<Rightarrow> handle_client_exit websocket cid (Some e) s2
           | None \<Rightarrow>
               if respond a
               then s2\<lparr>tasks := (tasks s2)(websocket \<mapsto>
                       \<lparr>client_id = cid,
                        phase = Sending \<lparr>status = ''received'', message_id = message_count s2,
                                         timestamp = now\<rparr>\<rparr>)\<rparr>
               else s2))))"

text \<open>Line 57, after \<^verbatim>\<open>websocket.send\<close> returned: the frame is out, the loop reads again.\<close>

definition handle_client_sent :: "ws \<Rightarrow> string \<Rightarrow> response \<Rightarrow> server \<Rightarrow> server" where
  "handle_client_sent websocket cid r s =
    (let s1 = s\<lparr>wire := wire s @ [(websocket, r)]\<rparr>;
         s2 = say [ResponseSent cid] s1
     in s2\<lparr>tasks := (tasks s2)(websocket \<mapsto> \<lparr>client_id = cid, phase = Reading\<rparr>)\<rparr>)"

section \<open>The event loop\<close>

text \<open>
  What the websockets library and the event loop can do to the handlers: accept a
  connection and start its handler; deliver a message to a handler that reads; end the
  \<^verbatim>\<open>async for\<close> (\<open>ReadEnds\<close>: the iterator swallows the exception of a normal closure, so
  a graceful close arrives here) or raise in it (\<open>ReadRaises\<close>: what the iterator lets
  through); complete a pending \<^verbatim>\<open>send\<close> or raise in it. An event is enabled only when the handler of its
  connection is at the matching await; \<open>step\<close> is \<open>None\<close> otherwise. The code between two
  awaits runs without interruption, since the event loop is cooperative.
\<close>

datatype event =
    Connect ws string nat
  | Arrives ws payload string
  | ReadEnds ws
  | ReadRaises ws exn
  | SendReturns ws
  | SendRaises ws exn

fun conn :: "event \<Rightarrow> ws" where
  "conn (Connect w h p) = w"
| "conn (Arrives w m t) = w"
| "conn (ReadEnds w) = w"
| "conn (ReadRaises w e) = w"
| "conn (SendReturns w) = w"
| "conn (SendRaises w e) = w"

fun is_message :: "event \<Rightarrow> bool" where
  "is_message (Arrives w m t) = True"
| "is_message ev = False"

fun step :: "args \<Rightarrow> (payload \<Rightarrow> exn + json) \<Rightarrow> server \<Rightarrow> event \<Rightarrow> server option" where
  "step a loads s (Connect w h p) =
    (case tasks s w of None \<Rightarrow> Some (handle_client_enter w h p s) | Some t \<Rightarrow> None)"
| "step a loads s (Arrives w m now) =
    (case tasks s w of
       None \<Rightarrow> None
     | Some t \<Rightarrow> (case phase t of
          Reading \<Rightarrow> Some (handle_client_message a loads w (client_id t) m now s)
        | Sending r \<Rightarrow> None))"
| "step a loads s (ReadEnds w) =
    (case tasks s w of
       None \<Rightarrow> None
     | Some t \<Rightarrow> (case phase t of
          Reading \<Rightarrow> Some (handle_client_exit w (client_id t) None s)
        | Sending r \<Rightarrow> None))"
| "step a loads s (ReadRaises w e) =
    (case tasks s w of
       None \<Rightarrow> None
     | Some t \<Rightarrow> (case phase t of
          Reading \<Rightarrow> Some (handle_client_exit w (client_id t) (Some e) s)
        | Sending r \<Rightarrow> None))"
| "step a loads s (SendReturns w) =
    (case tasks s w of
       None \<Rightarrow> None
     | Some t \<Rightarrow> (case phase t of
          Reading \<Rightarrow> None
        | Sending r \<Rightarrow> Some (handle_client_sent w (client_id t) r s)))"
| "step a loads s (SendRaises w e) =
    (case tasks s w of
       None \<Rightarrow> None
     | Some t \<Rightarrow> (case phase t of
          Reading \<Rightarrow> None
        | Sending r \<Rightarrow> Some (handle_client_exit w (client_id t) (Some e) s)))"

fun run :: "args \<Rightarrow> (payload \<Rightarrow> exn + json) \<Rightarrow> server \<Rightarrow> event list \<Rightarrow> server option" where
  "run a loads s [] = Some s"
| "run a loads s (ev # evs) =
    (case step a loads s ev of None \<Rightarrow> None | Some s' \<Rightarrow> run a loads s' evs)"

section \<open>Observations on a run\<close>

text \<open>Events that start a handler, and events that end the read loop of one.\<close>

fun is_connect :: "event \<Rightarrow> bool" where
  "is_connect (Connect w h p) = True"
| "is_connect ev = False"

fun is_exit :: "event \<Rightarrow> bool" where
  "is_exit (ReadEnds w) = True"
| "is_exit (ReadRaises w e) = True"
| "is_exit ev = False"

text \<open>
  The values \<^verbatim>\<open>message_count\<close> takes, one per delivered message, in the order of the run.
\<close>

fun assigned :: "args \<Rightarrow> (payload \<Rightarrow> exn + json) \<Rightarrow> server \<Rightarrow> event list \<Rightarrow> int list" where
  "assigned a loads s [] = []"
| "assigned a loads s (ev # evs) =
    (case step a loads s ev of
       None \<Rightarrow> []
     | Some s' \<Rightarrow> (if is_message ev then [message_count s'] else []) @ assigned a loads s' evs)"

text \<open>The message numbers shown by the header lines of an output.\<close>

fun header_numbers :: "line list \<Rightarrow> int list" where
  "header_numbers [] = []"
| "header_numbers (MessageHeader n c # ls) = n # header_numbers ls"
| "header_numbers (RawHeader n c # ls) = n # header_numbers ls"
| "header_numbers (l # ls) = header_numbers ls"

text \<open>The registry holds exactly the connections whose handler is running.\<close>

definition registry_ok :: "server \<Rightarrow> bool" where
  "registry_ok s \<longleftrightarrow> fset (connected_clients s) = dom (tasks s)"

section \<open>Sample inputs\<close>

text \<open>
  The command line with and without \<^verbatim>\<open>--respond\<close>, the two telemetry messages of the
  specification, a publish message whose \<^verbatim>\<open>msg\<close> is the number 5, a telemetry message
  whose topic is the escape of the lone surrogate U+D800, and what \<^verbatim>\<open>json.loads\<close> does on
  them. \<open>sample_loads\<close> is used on these four texts, on the single byte FF (not UTF-8)
  and on payloads that are not JSON (\<^verbatim>\<open>hello world\<close>, \<^verbatim>\<open>ping\<close>, \<^verbatim>\<open>b'hello'\<close>) only.
\<close>

definition args_plain :: args where
  "args_plain = \<lparr>host = ''0.0.0.0'', port = 9090, respond = False\<rparr>"

definition args_respond :: args where
  "args_respond = \<lparr>host = ''0.0.0.0'', port = 9090, respond = True\<rparr>"

definition fix_text :: string where
  \<open>fix_text = ''{"op":"publish","topic":"/gps","msg":{"latitude":1.23,"longitude":4.56}}''\<close>

definition fix_msg :: "(pystr \<times> json) list" where
  "fix_msg = [(lit ''latitude'', JFloat 0x3FF3AE147AE147AE), (lit ''longitude'', JFloat 0x40123D70A3D70A3D)]"

definition fix_fields :: "(pystr \<times> json) list" where
  "fix_fields = [(lit ''op'', JStr (lit ''publish'')), (lit ''topic'', JStr (lit ''/gps'')), (lit ''msg'', JObj fix_msg)]"

definition fix_alt_text :: string where
  \<open>fix_alt_text = ''{"op":"publish","topic":"/gps","msg":{"latitude":1.0,"longitude":2.0,"altitude":50}}''\<close>

definition fix_alt_msg :: "(pystr \<times> json) list" where
  "fix_alt_msg = [(lit ''latitude'', JFloat 0x3FF0000000000000), (lit ''longitude'', JFloat 0x4000000000000000),
                  (lit ''altitude'', JInt 50)]"

definition fix_alt_fields :: "(pystr \<times> json) list" where
  "fix_alt_fields = [(lit ''op'', JStr (lit ''publish'')), (lit ''topic'', JStr (lit ''/gps'')), (lit ''msg'', JObj fix_alt_msg)]"

definition scalar_msg_text :: string where
  \<open>scalar_msg_text = ''{"op":"publish","msg":5}''\<close>

definition scalar_msg_fields :: "(pystr \<times> json) list" where
  "scalar_msg_fields = [(lit ''op'', JStr (lit ''publish'')), (lit ''msg'', JInt 5)]"

definition surrogate_topic_text :: string where
  \<open>surrogate_topic_text =
     ''{"op":"publish","topic":"'' @ [CHR 0x5C] @
     ''ud800","msg":{"latitude":1.23,"longitude":4.56}}''\<close>

definition surrogate_topic_fields :: "(pystr \<times> json) list" where
  "surrogate_topic_fields =
     [(lit ''op'', JStr (lit ''publish'')), (lit ''topic'', JStr [0xD800]), (lit ''msg'', JObj fix_msg)]"

definition sample_loads :: "payload \<Rightarrow> exn + json" where
  "sample_loads p =
    (if p = Text fix_text then Inr (JObj fix_fields)
     else if p = Text fix_alt_text then Inr (JObj fix_alt_fields)
     else if p = Text scalar_msg_text then Inr (JObj scalar_msg_fields)
     else if p = Text surrogate_topic_text then Inr (JObj surrogate_topic_fields)
     else if p = Binary [CHR 0xFF] then Inl UnicodeDecodeError
     else Inl JSONDecodeError)"

text \<open>
  Two states reached by the sample runs below: two clients connected and reading, and one
  client whose acknowledgment of \<^verbatim>\<open>hello world\<close> is in flight.
\<close>

definition two_clients :: server where
  "two_clients =
    \<lparr>connected_clients = {|1, 2|}, message_count = 0,
     tasks = [1 \<mapsto> \<lparr>client_id = ''Client-1'', phase = Reading\<rparr>,
              2 \<mapsto> \<lparr>client_id = ''Client-2'', phase = Reading\<rparr>],
     stdout = [NewConnection ''10.0.0.5'' 50000 ''Client-1'', Waiting ''Client-1'',
               NewConnection ''10.0.0.6'' 50001 ''Client-2'', Waiting ''Client-2''],
     wire = [], escaped = []\<rparr>"

definition one_sending :: server where
  "one_sending =
    \<lparr>connected_clients = {|1|}, message_count = 1,
     tasks = [1 \<mapsto> \<lparr>client_id = ''Client-1'',
                      phase = Sending \<lparr>status = ''received'', message_id = 1,
                                       timestamp = ''2024-05-01T10:00:00''\<rparr>\<rparr>],
     stdout = [NewConnection ''10.0.0.5'' 50000 ''Client-1'', Waiting ''Client-1'',
               RawHeader 1 ''Client-1'', RawText ''hello world''],
     wire = [], escaped = []\<rparr>"

section \<open>Auxiliary facts\<close>

text \<open>\<open>str_nat\<close> is unfolded by hand only: its equation applies to its own right-hand side.\<close>

declare str_nat.simps [simp del]


lemma lit_eq_iff [simp]: "lit x = lit y \<longleftrightarrow> x = y"
  by (simp add: lit_def inj_map_eq_map inj_on_def)

lemma lit_no_surrogate [simp]: "\<not> list_ex is_surrogate (lit x)"
proof -
  have "\<not> is_surrogate (of_char c)" for c
  proof -
    have "of_char c < (256::nat)" by (rule nat_of_char_less_256)
    then have "of_char c < (0xD800::nat)" by linarith
    then show ?thesis unfolding is_surrogate_def by linarith
  qed
  then show ?thesis by (simp add: lit_def list_ex_iff)
qed

lemma utf8_print_lit [simp]: "utf8_print (JStr (lit x)) = None"
  by simp

lemma utf8_print_error [simp]: "utf8_print v \<noteq> Some JSONDecodeError"
  by (cases v) auto

lemma py_in_error [simp]: "py_in k v \<noteq> Inl JSONDecodeError"
  by (cases v) auto

lemma py_getitem_error [simp]: "py_getitem v k \<noteq> Inl JSONDecodeError"
  by (cases v) (auto split: option.splits)

lemma py_get_error [simp]: "py_get v k d \<noteq> Inl JSONDecodeError"
  by (cases v) (auto split: option.splits)

lemma is_publish_error [simp]: "is_publish data \<noteq> Inl JSONDecodeError"
  by (auto simp add: is_publish_def split: sum.splits)

lemma has_position_error [simp]: "has_position msg \<noteq> Inl JSONDecodeError"
  by (auto simp add: has_position_def split: sum.splits)

lemma print_altitude_error [simp]:
  "print_altitude utf8_print msg \<noteq> (ls, Some JSONDecodeError)"
  by (auto simp add: print_altitude_def split: sum.splits option.splits)

lemma print_gps_error [simp]:
  "print_gps utf8_print data msg \<noteq> (ls, Some JSONDecodeError)"
  by (auto simp add: print_gps_def split: sum.splits prod.splits option.splits)

lemma extract_gps_not_decode_error:
  "snd (extract_gps utf8_print data) \<noteq> Some JSONDecodeError"
proof -
  have "extract_gps utf8_print data \<noteq> (ls, Some JSONDecodeError)" for ls
    by (auto simp add: extract_gps_def split: sum.splits)
  then show ?thesis by (cases "extract_gps utf8_print data") auto
qed

lemma display_decoded:
  assumes "loads message = Inr data"
  shows "display loads n cid message =
           ([MessageHeader n cid, Dump data] @ fst (extract_gps utf8_print data),
            snd (extract_gps utf8_print data))"
proof (cases "extract_gps utf8_print data")
  case (Pair ls r)
  with extract_gps_not_decode_error [of data] have "r \<noteq> Some JSONDecodeError" by simp
  with Pair assms show ?thesis
    by (cases r) (simp_all add: display_def)
qed

lemma display_raw_text:
  assumes "loads (Text m) = Inl JSONDecodeError"
  shows "display loads n cid (Text m) =
           ([RawHeader n cid, RawText (take 200 m @ (if length m > 200 then ''...'' else ''''))], None)"
  using assms by (simp add: display_def raw_display_def)

lemma display_raw_bytes:
  assumes "loads (Binary b) = Inl JSONDecodeError"
  shows "display loads n cid (Binary b) = ([RawHeader n cid], Some TypeError)"
  using assms by (simp add: display_def raw_display_def)

subsection \<open>Effect of the handler pieces on each global\<close>

lemma exit_message_count [simp]:
  "message_count (handle_client_exit w cid e s) = message_count s"
  by (simp add: handle_client_exit_def say_def Let_def split: prod.splits option.splits)

lemma exit_tasks [simp]:
  "tasks (handle_client_exit w cid e s) = (tasks s)(w := None)"
  by (simp add: handle_client_exit_def say_def Let_def split: prod.splits option.splits)

lemma exit_connected_clients [simp]:
  "connected_clients (handle_client_exit w cid e s) = connected_clients s |-| {|w|}"
  by (auto simp add: handle_client_exit_def say_def Let_def split: prod.splits option.splits)

lemma exit_wire [simp]:
  "wire (handle_client_exit w cid e s) = wire s"
  by (simp add: handle_client_exit_def say_def Let_def split: prod.splits option.splits)

lemma exit_stdout:
  "stdout (handle_client_exit w cid e s) =
     stdout s @ fst (except_clauses cid e) @
     (if w |\<in>| connected_clients s
      then [Disconnected cid (fcard (connected_clients s |-| {|w|}))] else [])"
  by (simp add: handle_client_exit_def say_def Let_def split: prod.splits option.splits)

lemma exit_escaped:
  "escaped (handle_client_exit w cid e s) =
     escaped s @
     (if w |\<in>| connected_clients s
      then (case snd (except_clauses cid e) of None \<Rightarrow> [] | Some x \<Rightarrow> [(w, x)])
      else [(w, KeyError)])"
  by (simp add: handle_client_exit_def say_def Let_def split: prod.splits option.splits)

lemma enter_message_count [simp]:
  "message_count (handle_client_enter w h p s) = message_count s"
  by (simp add: handle_client_enter_def say_def Let_def)

lemma enter_connected_clients [simp]:
  "connected_clients (handle_client_enter w h p s) = finsert w (connected_clients s)"
  by (simp add: handle_client_enter_def say_def Let_def)

lemma enter_tasks [simp]:
  "tasks (handle_client_enter w h p s) =
     (tasks s)(w \<mapsto> \<lparr>client_id = ''Client-'' @ str_nat (fcard (connected_clients s) + 1),
                      phase = Reading\<rparr>)"
  by (simp add: handle_client_enter_def say_def Let_def)

lemma sent_message_count [simp]:
  "message_count (handle_client_sent w cid r s) = message_count s"
  by (simp add: handle_client_sent_def say_def Let_def)

lemma sent_connected_clients [simp]:
  "connected_clients (handle_client_sent w cid r s) = connected_clients s"
  by (simp add: handle_client_sent_def say_def Let_def)

lemma sent_tasks [simp]:
  "tasks (handle_client_sent w cid r s) = (tasks s)(w \<mapsto> \<lparr>client_id = cid, phase = Reading\<rparr>)"
  by (simp add: handle_client_sent_def say_def Let_def)

lemma sent_wire [simp]:
  "wire (handle_client_sent w cid r s) = wire s @ [(w, r)]"
  by (simp add: handle_client_sent_def say_def Let_def)

lemma message_message_count [simp]:
  "message_count (handle_client_message a loads w cid m now s) = message_count s + 1"
  by (simp add: handle_client_message_def say_def Let_def split: prod.splits option.splits)

lemma message_wire [simp]:
  "wire (handle_client_message a loads w cid m now s) = wire s"
  by (simp add: handle_client_message_def say_def Let_def split: prod.splits option.splits)

lemma message_connected_clients:
  "connected_clients (handle_client_message a loads w cid m now s) =
     (if snd (display loads (message_count s + 1) cid m) = None
      then connected_clients s else connected_clients s |-| {|w|})"
  by (auto simp add: handle_client_message_def say_def Let_def split: prod.splits option.splits)

lemma message_tasks:
  "tasks (handle_client_message a loads w cid m now s) =
     (if snd (display loads (message_count s + 1) cid m) = None
      then (if respond a
            then (tasks s)(w \<mapsto> \<lparr>client_id = cid,
                    phase = Sending \<lparr>status = ''received'', message_id = message_count s + 1,
                                     timestamp = now\<rparr>\<rparr>)
            else tasks s)
      else (tasks s)(w := None))"
  by (auto simp add: handle_client_message_def say_def Let_def split: prod.splits option.splits)

lemma message_stdout:
  "stdout (handle_client_message a loads w cid m now s) =
     (case display loads (message_count s + 1) cid m of
        (ls, None) \<Rightarrow> stdout s @ ls
      | (ls, Some e) \<Rightarrow> stdout s @ ls @ fst (except_clauses cid (Some e)) @
          (if w |\<in>| connected_clients s
           then [Disconnected cid (fcard (connected_clients s |-| {|w|}))] else []))"
  by (auto simp add: handle_client_message_def exit_stdout say_def Let_def split: prod.splits option.splits)

subsection \<open>The registry holds exactly the connections whose handler runs\<close>

lemma registry_ok_init: "registry_ok init"
  by (simp add: registry_ok_def init_def)

lemma registry_ok_step:
  assumes "registry_ok s" and "step a loads s ev = Some s'"
  shows "registry_ok s'"
  using assms
  by (cases ev)
     (auto simp add: registry_ok_def message_connected_clients message_tasks
           split: option.splits phase.splits if_splits)

lemma registry_ok_run:
  assumes "registry_ok s" and "run a loads s evs = Some s'"
  shows "registry_ok s'"
  using assms
  by (induction evs arbitrary: s) (auto split: option.splits dest: registry_ok_step)

lemma message_count_step:
  assumes "step a loads s ev = Some s'"
  shows "message_count s' = message_count s + (if is_message ev then 1 else 0)"
  using assms by (cases ev) (auto split: option.splits phase.splits)

lemma header_numbers_append [simp]:
  "header_numbers (xs @ ys) = header_numbers xs @ header_numbers ys"
  by (induction xs rule: header_numbers.induct) auto

lemma print_altitude_headers [simp]: "header_numbers (fst (print_altitude pr msg)) = []"
  by (auto simp add: print_altitude_def split: sum.splits option.splits)

lemma print_gps_headers [simp]: "header_numbers (fst (print_gps pr data msg)) = []"
proof -
  have "header_numbers ls = []" if "print_altitude pr msg = (ls, r)" for ls r
    using print_altitude_headers [of pr msg] that by simp
  then show ?thesis
    by (auto simp add: print_gps_def split: sum.splits prod.splits option.splits)
qed

lemma extract_gps_headers [simp]: "header_numbers (fst (extract_gps pr data)) = []"
  by (auto simp add: extract_gps_def split: sum.splits)

lemma except_clauses_headers [simp]: "header_numbers (fst (except_clauses cid e)) = []"
  by (cases "(cid, e)" rule: except_clauses.cases) auto

lemma display_headers:
  "set (header_numbers (fst (display loads n cid m))) \<subseteq> {n}"
proof (cases "loads m")
  case (Inl e)
  then show ?thesis
    by (cases m) (auto simp add: display_def raw_display_def)
next
  case (Inr data)
  then show ?thesis by (simp add: display_decoded)
qed

lemma display_headers_decoded:
  assumes "loads m = Inr data \<or> loads m = Inl JSONDecodeError"
  shows "header_numbers (fst (display loads n cid m)) = [n]"
proof -
  from assms consider data where "loads m = Inr data" | "loads m = Inl JSONDecodeError"
    by blast
  then show ?thesis
  proof cases
    case 1
    then show ?thesis by (simp add: display_decoded)
  next
    case 2
    then show ?thesis by (cases m) (simp_all add: display_def raw_display_def)
  qed
qed

lemma message_count_run:
  assumes "run a loads s evs = Some s'"
  shows "message_count s' = message_count s + int (length (filter is_message evs))"
  using assms
proof (induction evs arbitrary: s)
  case Nil
  then show ?case by simp
next
  case (Cons ev evs)
  then obtain s1 where s1: "step a loads s ev = Some s1" and rest: "run a loads s1 evs = Some s'"
    by (auto split: option.splits)
  from Cons.IH [OF rest] message_count_step [OF s1] show ?case by simp
qed

lemma assigned_run:
  assumes "run a loads s evs = Some s'"
  shows "assigned a loads s evs =
           [message_count s + 1 .. message_count s + int (length (filter is_message evs))]"
  using assms
proof (induction evs arbitrary: s)
  case Nil
  then show ?case by simp
next
  case (Cons ev evs)
  then obtain s1 where s1: "step a loads s ev = Some s1" and rest: "run a loads s1 evs = Some s'"
    by (auto split: option.splits)
  note ih = Cons.IH [OF rest] and c = message_count_step [OF s1]
  show ?case
  proof (cases "is_message ev")
    case True
    let ?k = "int (length (filter is_message evs))"
    from True c have n: "message_count s + 1 = message_count s1" by simp
    have e: "message_count s + int (length (filter is_message (ev # evs))) =
               message_count s1 + ?k"
      using True n by simp
    have "assigned a loads s (ev # evs) = message_count s1 # assigned a loads s1 evs"
      using s1 True by simp
    also have "\<dots> = message_count s1 # [message_count s1 + 1 .. message_count s1 + ?k]"
      by (simp only: ih)
    also have "\<dots> = [message_count s1 .. message_count s1 + ?k]"
      by (rule upto_rec1 [symmetric]) simp
    finally show ?thesis by (simp only: e n)
  next
    case False
    with ih c s1 show ?thesis by simp
  qed
qed

subsection \<open>Connecting and disconnecting\<close>

lemma run_append:
  "run a loads s (xs @ ys) =
     (case run a loads s xs of None \<Rightarrow> None | Some s' \<Rightarrow> run a loads s' ys)"
  by (induction xs arbitrary: s) (auto split: option.splits)

lemma registry_ok_reachable:
  assumes "run a loads init evs = Some s"
  shows "registry_ok s"
  using registry_ok_init assms by (rule registry_ok_run)

lemma registry_ok_member:
  assumes "registry_ok s" and "tasks s w = Some t"
  shows "w |\<in>| connected_clients s"
  using assms by (auto simp add: registry_ok_def)

lemma connects_run:
  assumes "list_all is_connect cs" and "distinct (map conn cs)"
      and "\<forall>w \<in> set (map conn cs). tasks s w = None"
  shows "\<exists>s'. run a loads s cs = Some s'
            \<and> connected_clients s' = connected_clients s |\<union>| fset_of_list (map conn cs)
            \<and> (\<forall>w \<in> set (map conn cs). \<exists>t. tasks s' w = Some t \<and> phase t = Reading)
            \<and> (\<forall>w. w \<notin> set (map conn cs) \<longrightarrow> tasks s' w = tasks s w)"
  using assms
proof (induction cs arbitrary: s)
  case Nil
  then show ?case by simp
next
  case (Cons ev cs)
  from Cons.prems(1) obtain w h p where ev: "ev = Connect w h p"
    by (cases ev) auto
  let ?s1 = "handle_client_enter w h p s"
  from Cons.prems ev have st: "step a loads s ev = Some ?s1" by simp
  from Cons.prems ev have fresh: "\<forall>v \<in> set (map conn cs). tasks ?s1 v = None"
    by auto
  from Cons.prems have "list_all is_connect cs" and "distinct (map conn cs)" by simp_all
  from Cons.IH [OF this fresh] obtain s' where
    r: "run a loads ?s1 cs = Some s'"
    and c: "connected_clients s' = connected_clients ?s1 |\<union>| fset_of_list (map conn cs)"
    and t: "\<forall>v \<in> set (map conn cs). \<exists>t. tasks s' v = Some t \<and> phase t = Reading"
    and o: "\<forall>v. v \<notin> set (map conn cs) \<longrightarrow> tasks s' v = tasks ?s1 v"
    by blast
  from Cons.prems(2) ev have wn: "w \<notin> set (map conn cs)" by simp
  have "run a loads s (ev # cs) = Some s'" using st r by simp
  moreover have "connected_clients s' = connected_clients s |\<union>| fset_of_list (map conn (ev # cs))"
    using c ev by simp
  moreover have "\<forall>v \<in> set (map conn (ev # cs)). \<exists>t. tasks s' v = Some t \<and> phase t = Reading"
    using t o wn ev by auto
  moreover have "\<forall>v. v \<notin> set (map conn (ev # cs)) \<longrightarrow> tasks s' v = tasks s v"
    using o ev by auto
  ultimately show ?case by blast
qed

lemma disconnects_run:
  assumes "list_all is_exit ds" and "distinct (map conn ds)"
      and "\<forall>w \<in> set (map conn ds). \<exists>t. tasks s w = Some t \<and> phase t = Reading"
  shows "\<exists>s'. run a loads s ds = Some s'
            \<and> connected_clients s' = connected_clients s |-| fset_of_list (map conn ds)
            \<and> (\<forall>w. w \<notin> set (map conn ds) \<longrightarrow> tasks s' w = tasks s w)"
  using assms
proof (induction ds arbitrary: s)
  case Nil
  then show ?case by simp
next
  case (Cons ev ds)
  let ?w = "conn ev"
  from Cons.prems(3) obtain t where t: "tasks s ?w = Some t" "phase t = Reading" by auto
  from Cons.prems(1) have "is_exit ev" by simp
  then obtain s1 where st: "step a loads s ev = Some s1"
    and c1: "connected_clients s1 = connected_clients s |-| {|?w|}"
    and t1: "tasks s1 = (tasks s)(?w := None)"
    using t by (cases ev) auto
  from Cons.prems(2) have wn: "?w \<notin> set (map conn ds)" by simp
  have live: "\<forall>v \<in> set (map conn ds). \<exists>t. tasks s1 v = Some t \<and> phase t = Reading"
  proof
    fix v
    assume v: "v \<in> set (map conn ds)"
    with wn have "v \<noteq> ?w" by blast
    moreover from Cons.prems(3) v obtain t' where "tasks s v = Some t'" and "phase t' = Reading"
      by auto
    ultimately show "\<exists>t. tasks s1 v = Some t \<and> phase t = Reading"
      using t1 by simp
  qed
  from Cons.prems have "list_all is_exit ds" and "distinct (map conn ds)" by simp_all
  from Cons.IH [OF this live] obtain s' where
    r: "run a loads s1 ds = Some s'"
    and c: "connected_clients s' = connected_clients s1 |-| fset_of_list (map conn ds)"
    and o: "\<forall>v. v \<notin> set (map conn ds) \<longrightarrow> tasks s' v = tasks s1 v"
    by blast
  have "run a loads s (ev # ds) = Some s'" using st r by simp
  moreover have "connected_clients s' = connected_clients s |-| fset_of_list (map conn (ev # ds))"
    using c c1 by auto
  moreover have "\<forall>v. v \<notin> set (map conn (ev # ds)) \<longrightarrow> tasks s' v = tasks s v"
    using o t1 by auto
  ultimately show ?case by blast
qed

lemma connects_then_disconnects:
  assumes "list_all is_connect cs" and "list_all is_exit ds"
      and "distinct (map conn cs)" and "distinct (map conn ds)"
      and "set (map conn ds) = set (map conn cs)"
  shows "\<exists>s'. run a loads init (cs @ ds) = Some s' \<and> connected_clients s' = {||}"
proof -
  have "\<forall>w \<in> set (map conn cs). tasks init w = None" by (simp add: init_def)
  from connects_run [OF assms(1) assms(3) this, of a loads] obtain s1 where
    r1: "run a loads init cs = Some s1"
    and c1: "connected_clients s1 = connected_clients init |\<union>| fset_of_list (map conn cs)"
    and t1: "\<forall>w \<in> set (map conn cs). \<exists>t. tasks s1 w = Some t \<and> phase t = Reading"
    by blast
  from t1 assms(5) have "\<forall>w \<in> set (map conn ds). \<exists>t. tasks s1 w = Some t \<and> phase t = Reading"
    by simp
  from disconnects_run [OF assms(2) assms(4) this, of a loads] obtain s2 where
    r2: "run a loads s1 ds = Some s2"
    and c2: "connected_clients s2 = connected_clients s1 |-| fset_of_list (map conn ds)"
    by blast
  have "fset_of_list (map conn ds) = fset_of_list (map conn cs)"
    using assms(5) by (simp add: fset_of_list.rep_eq fset_inject [symmetric])
  with c1 c2 have "connected_clients s2 = {||}" by (simp add: init_def)
  moreover have "run a loads init (cs @ ds) = Some s2" using r1 r2 by (simp add: run_append)
  ultimately show ?thesis by blast
qed

lemma exit_removes_own:
  assumes ok: "registry_ok s" and st: "step a loads s ev = Some s'"
      and live: "tasks s (conn ev) = Some t" and gone: "tasks s' (conn ev) = None"
  shows "connected_clients s' = connected_clients s |-| {|conn ev|}
       \<and> fcard (connected_clients s') + 1 = fcard (connected_clients s)
       \<and> tasks s' = (tasks s)(conn ev := None)
       \<and> last (stdout s') = Disconnected (client_id t) (fcard (connected_clients s'))"
proof -
  from ok live have mem: "conn ev |\<in>| connected_clients s" by (rule registry_ok_member)
  have card: "fcard (connected_clients s |-| {|conn ev|}) + 1 = fcard (connected_clients s)"
    using fcard_Suc_fminus1 [OF mem] by simp
  show ?thesis
  proof (cases ev)
    case (Connect w h p)
    with st live show ?thesis by simp
  next
    case (Arrives w m now)
    with st live gone mem card show ?thesis
      by (auto simp add: message_connected_clients message_tasks message_stdout
            split: phase.splits if_splits prod.splits option.splits)
  next
    case (ReadEnds w)
    with st live gone mem card show ?thesis
      by (auto simp add: exit_stdout split: phase.splits)
  next
    case (ReadRaises w e)
    with st live gone mem card show ?thesis
      by (auto simp add: exit_stdout split: phase.splits)
  next
    case (SendReturns w)
    with st live gone show ?thesis by (auto split: phase.splits)
  next
    case (SendRaises w e)
    with st live gone mem card show ?thesis
      by (auto simp add: exit_stdout split: phase.splits)
  qed
qed

lemma read_exit_enabled:
  assumes ok: "registry_ok s" and live: "tasks s w = Some t" and rd: "phase t = Reading"
  shows "(\<exists>s'. step a loads s (ReadEnds w) = Some s' \<and> tasks s' w = None
            \<and> stdout s' = stdout s @ [Disconnected (client_id t) (fcard (connected_clients s'))]
            \<and> escaped s' = escaped s)"
    and "(\<exists>s'. step a loads s (ReadRaises w (ConnectionClosed c r)) = Some s' \<and> tasks s' w = None
            \<and> stdout s' = stdout s @ [ClosedLine (client_id t) c r,
                                      Disconnected (client_id t) (fcard (connected_clients s'))]
            \<and> escaped s' = escaped s)"
    and "(\<exists>s'. step a loads s (ReadRaises w e) = Some s' \<and> tasks s' w = None)"
proof -
  from ok live have mem: "w |\<in>| connected_clients s" by (rule registry_ok_member)
  show "\<exists>s'. step a loads s (ReadEnds w) = Some s' \<and> tasks s' w = None
            \<and> stdout s' = stdout s @ [Disconnected (client_id t) (fcard (connected_clients s'))]
            \<and> escaped s' = escaped s"
    using live rd mem by (simp add: exit_stdout exit_escaped)
  show "\<exists>s'. step a loads s (ReadRaises w (ConnectionClosed c r)) = Some s' \<and> tasks s' w = None
            \<and> stdout s' = stdout s @ [ClosedLine (client_id t) c r,
                                      Disconnected (client_id t) (fcard (connected_clients s'))]
            \<and> escaped s' = escaped s"
    using live rd mem by (simp add: exit_stdout exit_escaped)
  show "\<exists>s'. step a loads s (ReadRaises w e) = Some s' \<and> tasks s' w = None"
    using live rd by simp
qed

subsection \<open>Messages that are processed without an exception\<close>

lemma no_extraction_without_match:
  assumes "map_of kv (lit ''op'') \<noteq> Some (JStr (lit ''publish'')) \<or> map_of kv (lit ''msg'') = None
         \<or> (\<exists>m. map_of kv (lit ''msg'') = Some (JObj m)
                \<and> (map_of m (lit ''latitude'') = None \<or> map_of m (lit ''longitude'') = None))"
  shows "extract_gps pr (JObj kv) = ([], None)"
  using assms
  by (auto simp add: extract_gps_def is_publish_def has_position_def split: option.splits)

lemma raw_text_message_displayed:
  assumes "tasks s w = Some t" and "phase t = Reading" and "loads (Text m) = Inl JSONDecodeError"
  shows "\<exists>s'. step a loads s (Arrives w (Text m) now) = Some s'
           \<and> message_count s' = message_count s + 1
           \<and> stdout s' = stdout s @
                [RawHeader (message_count s + 1) (client_id t),
                 RawText (take 200 m @ (if length m > 200 then ''...'' else ''''))]
           \<and> connected_clients s' = connected_clients s
           \<and> tasks s' w \<noteq> None"
proof -
  have d: "display loads (message_count s + 1) (client_id t) (Text m) =
           ([RawHeader (message_count s + 1) (client_id t),
             RawText (take 200 m @ (if length m > 200 then ''...'' else ''''))], None)"
    using assms(3) by (rule display_raw_text)
  show ?thesis
    using assms(1,2)
    by (simp add: message_stdout message_connected_clients message_tasks d)
qed

lemma ack_for_displayed_message:
  assumes "tasks s w = Some t" and "phase t = Reading" and "respond a"
      and "snd (display loads (message_count s + 1) (client_id t) m) = None"
  shows "\<exists>s' s''. step a loads s (Arrives w m now) = Some s'
           \<and> wire s' = wire s
           \<and> tasks s' w = Some \<lparr>client_id = client_id t,
                 phase = Sending \<lparr>status = ''received'', message_id = message_count s',
                                  timestamp = now\<rparr>\<rparr>
           \<and> step a loads s' (SendReturns w) = Some s''
           \<and> wire s'' = wire s @ [(w, \<lparr>status = ''received'', message_id = message_count s',
                                      timestamp = now\<rparr>)]
           \<and> tasks s'' w = Some \<lparr>client_id = client_id t, phase = Reading\<rparr>"
  using assms by (simp add: message_tasks)

subsection \<open>Evaluating a run on sample inputs\<close>

lemma str_nat_1: "str_nat (Suc 0) = ''1''"
  by code_simp

lemma str_nat_2: "str_nat (Suc (Suc 0)) = ''2''"
  by code_simp

lemma str_nat_2': "str_nat 2 = ''2''"
  by code_simp

lemmas exec = init_def handle_client_enter_def say_def handle_client_message_def display_def
  raw_display_def handle_client_exit_def handle_client_sent_def fcard_finsert_if fcard_fempty
  str_nat_1 str_nat_2 str_nat_2' Let_def args_plain_def args_respond_def sample_loads_def
  fix_text_def fix_alt_text_def scalar_msg_text_def surrogate_topic_text_def

lemma extract_gps_fix:
  "extract_gps utf8_print (JObj fix_fields) =
     ([ExtractedHeader, TopicLine (JStr (lit ''/gps'')), LatitudeLine (JFloat 0x3FF3AE147AE147AE),
       LongitudeLine (JFloat 0x40123D70A3D70A3D)], None)"
  by (simp add: extract_gps_def is_publish_def has_position_def print_gps_def print_altitude_def
        fix_fields_def fix_msg_def)

lemma str_nat_3: "str_nat (Suc (Suc (Suc 0))) = ''3''"
  by code_simp

lemma run_two_clients:
  "run a loads init [Connect 1 ''10.0.0.5'' 50000, Connect 2 ''10.0.0.6'' 50001] = Some two_clients"
  by (auto simp add: exec two_clients_def)

lemma run_one_sending:
  "run args_respond sample_loads init
     [Connect 1 ''10.0.0.5'' 50000, Arrives 1 (Text ''hello world'') ''2024-05-01T10:00:00''] =
   Some one_sending"
  by (auto simp add: exec one_sending_def)

section \<open>The claims\<close>




text \<open>
  C2. With \<^verbatim>\<open>--respond\<close>, the publish message whose \<^verbatim>\<open>msg\<close> is the number 5 is counted
  and displayed, then \<^verbatim>\<open>'latitude' in msg\<close> raises \<^verbatim>\<open>TypeError\<close> and the handler ends before
  line 50: no response is built, nothing goes out on the connection, and no send is pending.
\<close>

theorem ack_missing_when_extraction_raises:
  "run args_respond sample_loads init
     [Connect 1 ''10.0.0.5'' 50000, Arrives 1 (Text scalar_msg_text) ''2024-05-01T10:00:00''] =
     Some \<lparr>connected_clients = {||}, message_count = 1, tasks = Map.empty,
           stdout = [NewConnection ''10.0.0.5'' 50000 ''Client-1'', Waiting ''Client-1'',
                     MessageHeader 1 ''Client-1'', Dump (JObj scalar_msg_fields),
                     ErrorLine ''Client-1'' TypeError, Disconnected ''Client-1'' 0],
           wire = [], escaped = []\<rparr>
   \<and> run args_respond sample_loads init
       [Connect 1 ''10.0.0.5'' 50000, Arrives 1 (Text scalar_msg_text) ''2024-05-01T10:00:00'',
        SendReturns 1] = None"
  by (simp add: exec extract_gps_def is_publish_def has_position_def scalar_msg_fields_def)

text \<open>
  C3. After a run from the initial state, over any number of connections, the counter
  equals the number of messages delivered; the values it took, one per message, are
  \<open>1, 2, \<dots>, K\<close> in this order, hence strictly increasing and without repeats; and every
  step adds one for a message and nothing otherwise, so the counter never decreases.
\<close>

theorem message_count_counts_messages:
  assumes "run a loads init evs = Some s"
  shows "message_count s = int (length (filter is_message evs))
       \<and> assigned a loads init evs = [1 .. int (length (filter is_message evs))]
       \<and> sorted_wrt (<) (assigned a loads init evs)
       \<and> distinct (assigned a loads init evs)
       \<and> (\<forall>s0 ev s1. step a loads s0 ev = Some s1 \<longrightarrow>
             message_count s1 = message_count s0 + (if is_message ev then 1 else 0)
             \<and> message_count s0 \<le> message_count s1)"
proof -
  have m: "message_count init = 0" by (simp add: init_def)
  have c: "message_count s = int (length (filter is_message evs))"
    using message_count_run [OF assms] m by simp
  have l: "assigned a loads init evs = [1 .. int (length (filter is_message evs))]"
    using assigned_run [OF assms] m by simp
  have st: "message_count s1 = message_count s0 + (if is_message ev then 1 else 0)
            \<and> message_count s0 \<le> message_count s1"
    if "step a loads s0 ev = Some s1" for s0 ev s1
    using message_count_step [OF that] by simp
  from c l st show ?thesis by simp
qed

theorem message_count_counts_messages_witness:
  "run args_plain sample_loads init
     [Connect 1 ''10.0.0.5'' 50000, Connect 2 ''10.0.0.6'' 50001,
      Arrives 2 (Text ''hello world'') ''2024-05-01T10:00:00'',
      Arrives 1 (Text ''ping'') ''2024-05-01T10:00:01'',
      Arrives 2 (Binary ''hello'') ''2024-05-01T10:00:02''] \<noteq> None
   \<and> assigned args_plain sample_loads init
     [Connect 1 ''10.0.0.5'' 50000, Connect 2 ''10.0.0.6'' 50001,
      Arrives 2 (Text ''hello world'') ''2024-05-01T10:00:00'',
      Arrives 1 (Text ''ping'') ''2024-05-01T10:00:01'',
      Arrives 2 (Binary ''hello'') ''2024-05-01T10:00:02''] = [1, 2, 3]"
proof -
  let ?evs = "[Connect 1 ''10.0.0.5'' 50000, Connect 2 ''10.0.0.6'' 50001,
      Arrives 2 (Text ''hello world'') ''2024-05-01T10:00:00'',
      Arrives 1 (Text ''ping'') ''2024-05-01T10:00:01'',
      Arrives 2 (Binary ''hello'') ''2024-05-01T10:00:02'']"
  have "\<exists>s. run args_plain sample_loads init ?evs = Some s"
    by (simp add: exec)
  then obtain s where r: "run args_plain sample_loads init ?evs = Some s" ..
  have u: "[1..3] = [1, 2, 3::int]" by (simp add: upto_rec1)
  from message_count_counts_messages [OF r] r u show ?thesis by simp
qed

text \<open>
  C4. The publish message whose \<^verbatim>\<open>msg\<close> is the number 5 does not match the telemetry
  convention, yet the extraction raises \<^verbatim>\<open>TypeError\<close> on it: the error is logged, the
  handler leaves the registry, and a further message on the connection finds no handler.
\<close>

theorem msg_not_a_structure_raises:
  "extract_gps utf8_print (JObj scalar_msg_fields) = ([], Some TypeError)
   \<and> run args_plain sample_loads init
       [Connect 1 ''10.0.0.5'' 50000, Arrives 1 (Text scalar_msg_text) ''2024-05-01T10:00:00''] =
       Some \<lparr>connected_clients = {||}, message_count = 1, tasks = Map.empty,
             stdout = [NewConnection ''10.0.0.5'' 50000 ''Client-1'', Waiting ''Client-1'',
                       MessageHeader 1 ''Client-1'', Dump (JObj scalar_msg_fields),
                       ErrorLine ''Client-1'' TypeError, Disconnected ''Client-1'' 0],
             wire = [], escaped = []\<rparr>
   \<and> run args_plain sample_loads init
       [Connect 1 ''10.0.0.5'' 50000, Arrives 1 (Text scalar_msg_text) ''2024-05-01T10:00:00'',
        Arrives 1 (Text ''ping'') ''2024-05-01T10:00:01''] = None"
  by (simp add: exec extract_gps_def is_publish_def has_position_def scalar_msg_fields_def)

text \<open>
  C5, as stated, fails: after a send that raises \<^verbatim>\<open>ConnectionClosed\<close> the handler has
  printed the close line, left the registry and ended, and a later result of a read on the
  connection has no handler to go to.
\<close>

theorem send_failure_continues_counterexample:
  "run args_respond sample_loads init
     [Connect 1 ''10.0.0.5'' 50000, Arrives 1 (Text ''hello world'') ''2024-05-01T10:00:00'',
      SendRaises 1 (ConnectionClosed 1006 '''')] =
     Some \<lparr>connected_clients = {||}, message_count = 1, tasks = Map.empty,
           stdout = [NewConnection ''10.0.0.5'' 50000 ''Client-1'', Waiting ''Client-1'',
                     RawHeader 1 ''Client-1'', RawText ''hello world'',
                     ClosedLine ''Client-1'' 1006 '''', Disconnected ''Client-1'' 0],
           wire = [], escaped = []\<rparr>
   \<and> run args_respond sample_loads init
       [Connect 1 ''10.0.0.5'' 50000, Arrives 1 (Text ''hello world'') ''2024-05-01T10:00:00'',
        SendRaises 1 (ConnectionClosed 1006 ''''), ReadRaises 1 (ConnectionClosed 1006 '''')] = None"
  by (simp add: exec)

text \<open>
  C5, amended. In every reachable state, a send that raises ends the handler: the
  connection leaves the registry, the counter and the delivered acknowledgments are
  unchanged, a \<^verbatim>\<open>ConnectionClosed\<close> is logged with its code and reason and any other
  \<^verbatim>\<open>Exception\<close> as an error, neither leaves the handler, and no read, message or send
  event is possible for the connection afterwards.
\<close>

theorem send_failure_ends_handler:
  assumes "run a loads init evs = Some s" and "tasks s w = Some t" and "phase t = Sending r"
  shows "\<exists>s'. step a loads s (SendRaises w e) = Some s'
          \<and> tasks s' = (tasks s)(w := None)
          \<and> connected_clients s' = connected_clients s |-| {|w|}
          \<and> fcard (connected_clients s') + 1 = fcard (connected_clients s)
          \<and> message_count s' = message_count s
          \<and> wire s' = wire s
          \<and> (\<forall>c x. e = ConnectionClosed c x \<longrightarrow>
                stdout s' = stdout s @ [ClosedLine (client_id t) c x,
                                        Disconnected (client_id t) (fcard (connected_clients s'))])
          \<and> ((\<forall>c x. e \<noteq> ConnectionClosed c x) \<and> (\<forall>x. e \<noteq> BaseError x) \<longrightarrow>
                stdout s' = stdout s @ [ErrorLine (client_id t) e,
                                        Disconnected (client_id t) (fcard (connected_clients s'))])
          \<and> ((\<forall>x. e \<noteq> BaseError x) \<longrightarrow> escaped s' = escaped s)
          \<and> step a loads s' (Arrives w m now) = None
          \<and> step a loads s' (ReadEnds w) = None
          \<and> step a loads s' (ReadRaises w e') = None
          \<and> step a loads s' (SendReturns w) = None"
proof -
  from assms(1) have ok: "registry_ok s" by (rule registry_ok_reachable)
  from ok assms(2) have mem: "w |\<in>| connected_clients s" by (rule registry_ok_member)
  let ?s' = "handle_client_exit w (client_id t) (Some e) s"
  have st: "step a loads s (SendRaises w e) = Some ?s'" using assms(2,3) by simp
  have card: "fcard (connected_clients ?s') + 1 = fcard (connected_clients s)"
    using fcard_Suc_fminus1 [OF mem] by simp
  have closed: "stdout ?s' = stdout s @ [ClosedLine (client_id t) c x,
                                        Disconnected (client_id t) (fcard (connected_clients ?s'))]"
    if "e = ConnectionClosed c x" for c x
    using that mem by (simp add: exit_stdout)
  have other: "stdout ?s' = stdout s @ [ErrorLine (client_id t) e,
                                        Disconnected (client_id t) (fcard (connected_clients ?s'))]"
    if "(\<forall>c x. e \<noteq> ConnectionClosed c x) \<and> (\<forall>x. e \<noteq> BaseError x)"
    using that mem by (cases e) (simp_all add: exit_stdout)
  have absorbed: "escaped ?s' = escaped s" if "\<forall>x. e \<noteq> BaseError x"
    using that mem by (cases e) (simp_all add: exit_escaped)
  from st card closed other absorbed show ?thesis by simp
qed

theorem send_failure_ends_handler_witness:
  "run args_respond sample_loads init
     [Connect 1 ''10.0.0.5'' 50000, Arrives 1 (Text ''hello world'') ''2024-05-01T10:00:00''] =
     Some one_sending
   \<and> tasks one_sending 1 =
       Some \<lparr>client_id = ''Client-1'',
             phase = Sending \<lparr>status = ''received'', message_id = 1,
                              timestamp = ''2024-05-01T10:00:00''\<rparr>\<rparr>
   \<and> step args_respond sample_loads one_sending (SendRaises 1 (OtherError ''broken pipe'')) =
       Some \<lparr>connected_clients = {||}, message_count = 1, tasks = Map.empty,
             stdout = stdout one_sending @
               [ErrorLine ''Client-1'' (OtherError ''broken pipe''), Disconnected ''Client-1'' 0],
             wire = [], escaped = []\<rparr>"
proof -
  let ?r = "\<lparr>status = ''received'', message_id = 1, timestamp = ''2024-05-01T10:00:00''\<rparr>"
  let ?t = "\<lparr>client_id = ''Client-1'', phase = Sending ?r\<rparr>"
  have r: "run args_respond sample_loads init
     [Connect 1 ''10.0.0.5'' 50000, Arrives 1 (Text ''hello world'') ''2024-05-01T10:00:00''] =
     Some one_sending"
    by (rule run_one_sending)
  have l: "tasks one_sending 1 = Some ?t" by (simp add: one_sending_def)
  have p: "phase ?t = Sending ?r" by simp
  from send_failure_ends_handler [OF r l p, where e = "OtherError ''broken pipe''"
      and m = "Text ''ping''" and now = "''2024-05-01T10:00:01''" and e' = "OtherError ''eof''"]
  obtain s' where st: "step args_respond sample_loads one_sending
        (SendRaises 1 (OtherError ''broken pipe'')) = Some s'"
    and g: "tasks s' = (tasks one_sending)(1 := None)"
    and c: "connected_clients s' = connected_clients one_sending |-| {|1|}"
    and n: "message_count s' = message_count one_sending"
    and w: "wire s' = wire one_sending"
    and o: "stdout s' = stdout one_sending @ [ErrorLine ''Client-1'' (OtherError ''broken pipe''),
              Disconnected ''Client-1'' (fcard (connected_clients s'))]"
    and e: "escaped s' = escaped one_sending"
    unfolding task.select_convs by auto
  have "s' = \<lparr>connected_clients = {||}, message_count = 1, tasks = Map.empty,
             stdout = stdout one_sending @
               [ErrorLine ''Client-1'' (OtherError ''broken pipe''), Disconnected ''Client-1'' 0],
             wire = [], escaped = []\<rparr>"
    using g c n w o e by (cases s') (auto simp add: one_sending_def)
  with r l st show ?thesis by simp
qed

text \<open>
  C6. The binary message \<^verbatim>\<open>b'hello'\<close> fails the decode with \<^verbatim>\<open>JSONDecodeError\<close>; the counter
  is incremented and the raw-text header printed, then the display expression raises
  \<^verbatim>\<open>TypeError\<close>: no text is shown, the error is logged, and the handler ends.
\<close>

theorem bytes_not_json_raises:
  "sample_loads (Binary ''hello'') = Inl JSONDecodeError
   \<and> raw_text (Binary ''hello'') = Inl TypeError
   \<and> run args_plain sample_loads init
       [Connect 1 ''10.0.0.5'' 50000, Arrives 1 (Binary ''hello'') ''2024-05-01T10:00:00''] =
       Some \<lparr>connected_clients = {||}, message_count = 1, tasks = Map.empty,
             stdout = [NewConnection ''10.0.0.5'' 50000 ''Client-1'', Waiting ''Client-1'',
                       RawHeader 1 ''Client-1'',
                       ErrorLine ''Client-1'' TypeError, Disconnected ''Client-1'' 0],
             wire = [], escaped = []\<rparr>
   \<and> run args_plain sample_loads init
       [Connect 1 ''10.0.0.5'' 50000, Arrives 1 (Binary ''hello'') ''2024-05-01T10:00:00'',
        Arrives 1 (Text ''ping'') ''2024-05-01T10:00:01''] = None"
  by (simp add: exec)

text \<open>
  C7, as stated, fails: a graceful close ends the \<^verbatim>\<open>async for\<close> without an exception
  (the iterator of the library swallows the normal closure), so the \<^verbatim>\<open>except\<close> clause of
  line 59 does not run and the handler shows neither code nor reason; the cleanup runs.
\<close>

theorem graceful_close_shows_no_code_counterexample:
  "run args_plain sample_loads init [Connect 1 ''10.0.0.5'' 50000, ReadEnds 1] =
     Some \<lparr>connected_clients = {||}, message_count = 0, tasks = Map.empty,
           stdout = [NewConnection ''10.0.0.5'' 50000 ''Client-1'', Waiting ''Client-1'',
                     Disconnected ''Client-1'' 0],
           wire = [], escaped = []\<rparr>"
  by (simp add: exec)

text \<open>
  C7, amended. In every reachable state, whatever event ends a handler (the read loop ending
  after a graceful close, \<^verbatim>\<open>ConnectionClosed\<close> or any other exception in the read, a failed
  send, an exception while a message is processed), the handler removes exactly its own
  connection, the registry shrinks by one, and the last line printed reports the remaining
  count. A handler that reads can always be ended by the end of the stream or by an
  exception. The end of the stream prints the remaining count only, without code or reason;
  a \<^verbatim>\<open>ConnectionClosed\<close> raised in the read or in the send prints its code and reason first.
  Connecting any number of distinct connections and then ending each of them once, in any
  order, leaves the registry empty.
\<close>

theorem handler_cleanup:
  assumes "run a loads init evs = Some s"
  shows "(\<forall>ev s' t. step a loads s ev = Some s' \<and> tasks s (conn ev) = Some t
                   \<and> tasks s' (conn ev) = None \<longrightarrow>
            connected_clients s' = connected_clients s |-| {|conn ev|}
          \<and> fcard (connected_clients s') + 1 = fcard (connected_clients s)
          \<and> tasks s' = (tasks s)(conn ev := None)
          \<and> last (stdout s') = Disconnected (client_id t) (fcard (connected_clients s')))
       \<and> (\<forall>w t. tasks s w = Some t \<and> phase t = Reading \<longrightarrow>
            (\<exists>s'. step a loads s (ReadEnds w) = Some s' \<and> tasks s' w = None
                 \<and> stdout s' = stdout s @
                       [Disconnected (client_id t) (fcard (connected_clients s'))])
          \<and> (\<forall>e. \<exists>s'. step a loads s (ReadRaises w e) = Some s' \<and> tasks s' w = None)
          \<and> (\<forall>c r. \<exists>s'. step a loads s (ReadRaises w (ConnectionClosed c r)) = Some s'
                 \<and> stdout s' = stdout s @ [ClosedLine (client_id t) c r,
                       Disconnected (client_id t) (fcard (connected_clients s'))]))
       \<and> (\<forall>w t r. tasks s w = Some t \<and> phase t = Sending r \<longrightarrow>
            (\<forall>e. \<exists>s'. step a loads s (SendRaises w e) = Some s' \<and> tasks s' w = None)
          \<and> (\<forall>c x. \<exists>s'. step a loads s (SendRaises w (ConnectionClosed c x)) = Some s'
                 \<and> stdout s' = stdout s @ [ClosedLine (client_id t) c x,
                       Disconnected (client_id t) (fcard (connected_clients s'))]))
       \<and> (\<forall>cs ds. list_all is_connect cs \<and> list_all is_exit ds
                 \<and> distinct (map conn cs) \<and> distinct (map conn ds)
                 \<and> set (map conn ds) = set (map conn cs) \<longrightarrow>
            (\<exists>s'. run a loads init (cs @ ds) = Some s' \<and> connected_clients s' = {||}
                 \<and> fcard (connected_clients s') = 0))"
proof -
  from assms have ok: "registry_ok s" by (rule registry_ok_reachable)
  have p1: "connected_clients s' = connected_clients s |-| {|conn ev|}
          \<and> fcard (connected_clients s') + 1 = fcard (connected_clients s)
          \<and> tasks s' = (tasks s)(conn ev := None)
          \<and> last (stdout s') = Disconnected (client_id t) (fcard (connected_clients s'))"
    if "step a loads s ev = Some s' \<and> tasks s (conn ev) = Some t \<and> tasks s' (conn ev) = None"
    for ev s' t
  proof -
    from that have "step a loads s ev = Some s'" and "tasks s (conn ev) = Some t"
      and "tasks s' (conn ev) = None" by simp_all
    then show ?thesis by (rule exit_removes_own [OF ok])
  qed
  have p2: "(\<exists>s'. step a loads s (ReadEnds w) = Some s' \<and> tasks s' w = None
                 \<and> stdout s' = stdout s @
                       [Disconnected (client_id t) (fcard (connected_clients s'))])
          \<and> (\<forall>e. \<exists>s'. step a loads s (ReadRaises w e) = Some s' \<and> tasks s' w = None)
          \<and> (\<forall>c r. \<exists>s'. step a loads s (ReadRaises w (ConnectionClosed c r)) = Some s'
                 \<and> stdout s' = stdout s @ [ClosedLine (client_id t) c r,
                       Disconnected (client_id t) (fcard (connected_clients s'))])"
    if "tasks s w = Some t \<and> phase t = Reading" for w t
  proof -
    from that have l: "tasks s w = Some t" and r: "phase t = Reading" by simp_all
    from read_exit_enabled(1) [OF ok l r, of a loads]
    have "\<exists>s'. step a loads s (ReadEnds w) = Some s' \<and> tasks s' w = None
                 \<and> stdout s' = stdout s @
                       [Disconnected (client_id t) (fcard (connected_clients s'))]" by blast
    moreover from read_exit_enabled(3) [OF ok l r, of a loads]
    have "\<forall>e. \<exists>s'. step a loads s (ReadRaises w e) = Some s' \<and> tasks s' w = None" by blast
    moreover from read_exit_enabled(2) [OF ok l r, of a loads]
    have "\<forall>c r. \<exists>s'. step a loads s (ReadRaises w (ConnectionClosed c r)) = Some s'
                 \<and> stdout s' = stdout s @ [ClosedLine (client_id t) c r,
                       Disconnected (client_id t) (fcard (connected_clients s'))]" by blast
    ultimately show ?thesis by blast
  qed
  have p3: "(\<forall>e. \<exists>s'. step a loads s (SendRaises w e) = Some s' \<and> tasks s' w = None)
          \<and> (\<forall>c x. \<exists>s'. step a loads s (SendRaises w (ConnectionClosed c x)) = Some s'
                 \<and> stdout s' = stdout s @ [ClosedLine (client_id t) c x,
                       Disconnected (client_id t) (fcard (connected_clients s'))])"
    if "tasks s w = Some t \<and> phase t = Sending r" for w t r
  proof -
    from that have l: "tasks s w = Some t" and r: "phase t = Sending r" by simp_all
    from ok l have mem: "w |\<in>| connected_clients s" by (rule registry_ok_member)
    show ?thesis using l r mem by (simp add: exit_stdout)
  qed
  have p4: "\<exists>s'. run a loads init (cs @ ds) = Some s' \<and> connected_clients s' = {||}
                 \<and> fcard (connected_clients s') = 0"
    if "list_all is_connect cs \<and> list_all is_exit ds
                 \<and> distinct (map conn cs) \<and> distinct (map conn ds)
                 \<and> set (map conn ds) = set (map conn cs)" for cs ds
    using connects_then_disconnects [of cs ds a loads] that by auto
  from p1 p2 p3 p4 show ?thesis by blast
qed

theorem handler_cleanup_witness:
  "run args_plain sample_loads init
     [Connect 1 ''10.0.0.5'' 50000, Connect 2 ''10.0.0.6'' 50001] = Some two_clients
   \<and> step args_plain sample_loads two_clients (ReadRaises 2 (ConnectionClosed 1011 ''keepalive ping timeout'')) =
       Some \<lparr>connected_clients = {|1|}, message_count = 0,
             tasks = [1 \<mapsto> \<lparr>client_id = ''Client-1'', phase = Reading\<rparr>],
             stdout = stdout two_clients @
               [ClosedLine ''Client-2'' 1011 ''keepalive ping timeout'', Disconnected ''Client-2'' 1],
             wire = [], escaped = []\<rparr>
   \<and> fcard {|1::nat|} + 1 = fcard (connected_clients two_clients)
   \<and> run args_plain sample_loads init
       ([Connect 1 ''10.0.0.5'' 50000, Connect 2 ''10.0.0.6'' 50001, Connect 3 ''10.0.0.7'' 50002] @
        [ReadEnds 2, ReadRaises 3 (ConnectionClosed 1006 ''''),
         ReadRaises 1 (OtherError ''connection reset'')]) =
       Some \<lparr>connected_clients = {||}, message_count = 0, tasks = Map.empty,
             stdout = [NewConnection ''10.0.0.5'' 50000 ''Client-1'', Waiting ''Client-1'',
                       NewConnection ''10.0.0.6'' 50001 ''Client-2'', Waiting ''Client-2'',
                       NewConnection ''10.0.0.7'' 50002 ''Client-3'', Waiting ''Client-3'',
                       Disconnected ''Client-2'' 2,
                       ClosedLine ''Client-3'' 1006 '''', Disconnected ''Client-3'' 1,
                       ErrorLine ''Client-1'' (OtherError ''connection reset''),
                       Disconnected ''Client-1'' 0],
             wire = [], escaped = []\<rparr>"
proof -
  let ?s' = "\<lparr>connected_clients = {|1|}, message_count = 0,
             tasks = [1 \<mapsto> \<lparr>client_id = ''Client-1'', phase = Reading\<rparr>],
             stdout = stdout two_clients @
               [ClosedLine ''Client-2'' 1011 ''keepalive ping timeout'', Disconnected ''Client-2'' 1],
             wire = [], escaped = []\<rparr>"
  have r: "run args_plain sample_loads init
     [Connect 1 ''10.0.0.5'' 50000, Connect 2 ''10.0.0.6'' 50001] = Some two_clients"
    by (rule run_two_clients)
  have st: "step args_plain sample_loads two_clients (ReadRaises 2 (ConnectionClosed 1011 ''keepalive ping timeout'')) =
       Some ?s'"
    by (auto simp add: exec two_clients_def)
  have live: "tasks two_clients (conn (ReadRaises 2 (ConnectionClosed 1011 ''keepalive ping timeout''))) =
                Some \<lparr>client_id = ''Client-2'', phase = Reading\<rparr>"
    by (simp add: two_clients_def)
  have gone: "tasks ?s' (conn (ReadRaises 2 (ConnectionClosed 1011 ''keepalive ping timeout''))) = None"
    by simp
  note h = handler_cleanup [OF r]
  from h st live gone
  have "fcard (connected_clients ?s') + 1 = fcard (connected_clients two_clients)"
    by blast
  then have c: "fcard {|1::nat|} + 1 = fcard (connected_clients two_clients)" by simp
  let ?cs = "[Connect 1 ''10.0.0.5'' 50000, Connect 2 ''10.0.0.6'' 50001, Connect 3 ''10.0.0.7'' 50002]"
  let ?ds = "[ReadEnds 2, ReadRaises 3 (ConnectionClosed 1006 ''''),
         ReadRaises 1 (OtherError ''connection reset'')]"
  have "list_all is_connect ?cs \<and> list_all is_exit ?ds
                 \<and> distinct (map conn ?cs) \<and> distinct (map conn ?ds)
                 \<and> set (map conn ?ds) = set (map conn ?cs)"
    by auto
  with h obtain s3 where r3: "run args_plain sample_loads init (?cs @ ?ds) = Some s3"
    and e3: "connected_clients s3 = {||}"
    by blast
  have "run args_plain sample_loads init (?cs @ ?ds) =
       Some \<lparr>connected_clients = {||}, message_count = 0, tasks = Map.empty,
             stdout = [NewConnection ''10.0.0.5'' 50000 ''Client-1'', Waiting ''Client-1'',
                       NewConnection ''10.0.0.6'' 50001 ''Client-2'', Waiting ''Client-2'',
                       NewConnection ''10.0.0.7'' 50002 ''Client-3'', Waiting ''Client-3'',
                       Disconnected ''Client-2'' 2,
                       ClosedLine ''Client-3'' 1006 '''', Disconnected ''Client-3'' 1,
                       ErrorLine ''Client-1'' (OtherError ''connection reset''),
                       Disconnected ''Client-1'' 0],
             wire = [], escaped = []\<rparr>"
    by (auto simp add: exec str_nat_3)
  with r st c show ?thesis by blast
qed

text \<open>
  C8. The label given to a connection is \<^verbatim>\<open>Client-\<close> followed by the registry size plus
  one, taken before the connection is added, and some run gives the same label to two
  different connections that are both still open.
\<close>

theorem label_from_registry_size:
  "(\<forall>s w h p s'. step a loads s (Connect w h p) = Some s' \<longrightarrow>
       map_option client_id (tasks s' w) =
         Some (''Client-'' @ str_nat (fcard (connected_clients s) + 1))
     \<and> stdout s' = stdout s @
         [NewConnection h p (''Client-'' @ str_nat (fcard (connected_clients s) + 1)),
          Waiting (''Client-'' @ str_nat (fcard (connected_clients s) + 1))])
   \<and> (\<exists>evs s w1 w2 t1 t2. run a loads init evs = Some s \<and> w1 \<noteq> w2
         \<and> tasks s w1 = Some t1 \<and> tasks s w2 = Some t2 \<and> client_id t1 = client_id t2)"
proof -
  have p1: "map_option client_id (tasks s' w) =
         Some (''Client-'' @ str_nat (fcard (connected_clients s) + 1))
     \<and> stdout s' = stdout s @
         [NewConnection h p (''Client-'' @ str_nat (fcard (connected_clients s) + 1)),
          Waiting (''Client-'' @ str_nat (fcard (connected_clients s) + 1))]"
    if "step a loads s (Connect w h p) = Some s'" for s w h p s'
    using that by (auto simp add: handle_client_enter_def say_def Let_def split: option.splits)
  let ?evs = "[Connect 1 ''10.0.0.5'' 50000, Connect 2 ''10.0.0.6'' 50001, ReadEnds 1,
               Connect 3 ''10.0.0.7'' 50002]"
  have "\<exists>s. run a loads init ?evs = Some s
         \<and> tasks s 2 = Some \<lparr>client_id = ''Client-2'', phase = Reading\<rparr>
         \<and> tasks s 3 = Some \<lparr>client_id = ''Client-2'', phase = Reading\<rparr>"
    by (simp add: exec)
  then obtain s where r: "run a loads init ?evs = Some s"
    and t2: "tasks s 2 = Some \<lparr>client_id = ''Client-2'', phase = Reading\<rparr>"
    and t3: "tasks s 3 = Some \<lparr>client_id = ''Client-2'', phase = Reading\<rparr>"
    by blast
  have ne: "(2::nat) \<noteq> 3" by simp
  from r ne t2 t3
  have p2: "\<exists>evs s w1 w2 t1 t2. run a loads init evs = Some s \<and> w1 \<noteq> w2
         \<and> tasks s w1 = Some t1 \<and> tasks s w2 = Some t2 \<and> client_id t1 = client_id t2"
    by blast
  from p1 p2 show ?thesis by blast
qed


theorem label_from_registry_size_witness:
  "step args_plain sample_loads two_clients (Connect 7 ''10.0.0.9'' 50003) =
     Some (handle_client_enter 7 ''10.0.0.9'' 50003 two_clients)
   \<and> map_option client_id (tasks (handle_client_enter 7 ''10.0.0.9'' 50003 two_clients) 7) =
       Some ''Client-3''"
proof -
  have st: "step args_plain sample_loads two_clients (Connect 7 ''10.0.0.9'' 50003) =
     Some (handle_client_enter 7 ''10.0.0.9'' 50003 two_clients)"
    by (simp add: two_clients_def)
  have "fcard (connected_clients two_clients) + 1 = Suc (Suc (Suc 0))"
    by (simp add: two_clients_def fcard_finsert_if fcard_fempty)
  with label_from_registry_size [of args_plain sample_loads] st str_nat_3
  show ?thesis by simp
qed

text \<open>
  C9. A message delivered to a reading handler adds one to the counter whatever
  \<^verbatim>\<open>json.loads\<close> and the extraction do with it, also when they raise and end the handler;
  every header printed for it already shows the new number; and no later event takes the
  increment back.
\<close>

theorem counter_incremented_first:
  assumes "tasks s w = Some t" and "phase t = Reading"
  shows "\<exists>s' new. step a loads s (Arrives w m now) = Some s'
          \<and> message_count s' = message_count s + 1
          \<and> stdout s' = stdout s @ new
          \<and> set (header_numbers new) \<subseteq> {message_count s + 1}
          \<and> ((\<exists>data. loads m = Inr data) \<or> loads m = Inl JSONDecodeError \<longrightarrow>
                 header_numbers new = [message_count s + 1])
          \<and> (\<forall>evs s''. run a loads s' evs = Some s'' \<longrightarrow> message_count s' \<le> message_count s'')"
proof -
  let ?s' = "handle_client_message a loads w (client_id t) m now s"
  let ?d = "display loads (message_count s + 1) (client_id t) m"
  let ?new = "fst ?d @ (case snd ?d of None \<Rightarrow> [] | Some e \<Rightarrow>
                 fst (except_clauses (client_id t) (Some e)) @
                 (if w |\<in>| connected_clients s
                  then [Disconnected (client_id t) (fcard (connected_clients s |-| {|w|}))]
                  else []))"
  from assms have st: "step a loads s (Arrives w m now) = Some ?s'" by simp
  have c: "message_count ?s' = message_count s + 1" by simp
  have out: "stdout ?s' = stdout s @ ?new"
    by (cases ?d) (auto simp add: message_stdout split: option.splits)
  have hn: "header_numbers ?new = header_numbers (fst ?d)"
    by (auto split: option.splits)
  have h1: "set (header_numbers ?new) \<subseteq> {message_count s + 1}"
    unfolding hn by (rule display_headers)
  have h2: "header_numbers ?new = [message_count s + 1]"
    if "(\<exists>data. loads m = Inr data) \<or> loads m = Inl JSONDecodeError"
    unfolding hn using that by (auto intro: display_headers_decoded)
  have mono: "message_count ?s' \<le> message_count s''" if "run a loads ?s' evs = Some s''" for evs s''
    using message_count_run [OF that] by simp
  from st c out h1 h2 mono show ?thesis by blast
qed

theorem counter_incremented_first_witness:
  "tasks two_clients 2 = Some \<lparr>client_id = ''Client-2'', phase = Reading\<rparr>
   \<and> step args_plain sample_loads two_clients (Arrives 2 (Binary ''hello'') ''2024-05-01T10:00:02'') =
       Some \<lparr>connected_clients = {|1|}, message_count = 1,
             tasks = [1 \<mapsto> \<lparr>client_id = ''Client-1'', phase = Reading\<rparr>],
             stdout = stdout two_clients @
               [RawHeader 1 ''Client-2'', ErrorLine ''Client-2'' TypeError,
                Disconnected ''Client-2'' 1],
             wire = [], escaped = []\<rparr>"
proof -
  have l: "tasks two_clients 2 = Some \<lparr>client_id = ''Client-2'', phase = Reading\<rparr>"
    by (simp add: two_clients_def)
  have p: "phase \<lparr>client_id = ''Client-2'', phase = Reading\<rparr> = Reading" by simp
  from counter_incremented_first [OF l p, of args_plain sample_loads "Binary ''hello''"
      "''2024-05-01T10:00:02''"]
  obtain s' where st: "step args_plain sample_loads two_clients
        (Arrives 2 (Binary ''hello'') ''2024-05-01T10:00:02'') = Some s'"
    and c: "message_count s' = message_count two_clients + 1"
    by blast
  have "step args_plain sample_loads two_clients
        (Arrives 2 (Binary ''hello'') ''2024-05-01T10:00:02'') =
       Some \<lparr>connected_clients = {|1|}, message_count = 1,
             tasks = [1 \<mapsto> \<lparr>client_id = ''Client-1'', phase = Reading\<rparr>],
             stdout = stdout two_clients @
               [RawHeader 1 ''Client-2'', ErrorLine ''Client-2'' TypeError,
                Disconnected ''Client-2'' 1],
             wire = [], escaped = []\<rparr>"
    by (auto simp add: exec two_clients_def)
  with l st c show ?thesis by simp
qed

text \<open>
  C10, as stated, fails: the binary message made of the single byte FF is not valid JSON,
  but \<^verbatim>\<open>json.loads\<close> raises \<^verbatim>\<open>UnicodeDecodeError\<close> on it, which the inner \<^verbatim>\<open>except\<close> clause
  does not catch. The raw-text branch is not entered: no raw-text header is printed and no
  \<^verbatim>\<open>TypeError\<close> is raised; the handler logs the \<^verbatim>\<open>UnicodeDecodeError\<close> and ends.
\<close>

theorem binary_not_utf8_counterexample:
  "sample_loads (Binary [CHR 0xFF]) = Inl UnicodeDecodeError
   \<and> run args_plain sample_loads init
       [Connect 1 ''10.0.0.5'' 50000, Arrives 1 (Binary [CHR 0xFF]) ''2024-05-01T10:00:00''] =
       Some \<lparr>connected_clients = {||}, message_count = 1, tasks = Map.empty,
             stdout = [NewConnection ''10.0.0.5'' 50000 ''Client-1'', Waiting ''Client-1'',
                       ErrorLine ''Client-1'' UnicodeDecodeError, Disconnected ''Client-1'' 0],
             wire = [], escaped = []\<rparr>"
  by (simp add: exec)

text \<open>
  C10, amended. In every reachable state, a binary message delivered to a reading handler
  ends it whenever \<^verbatim>\<open>json.loads\<close> raises. If the exception is \<^verbatim>\<open>JSONDecodeError\<close>, the
  raw-text header is printed, the raw-text expression raises \<^verbatim>\<open>TypeError\<close>, the text is not
  shown and the \<^verbatim>\<open>TypeError\<close> is logged. If it is any other exception
  (\<^verbatim>\<open>UnicodeDecodeError\<close> for bytes that are not valid UTF-8), nothing is printed for the
  message and that exception goes to the \<^verbatim>\<open>except\<close> clauses of the handler. In both cases
  the counter is incremented, the handler leaves the registry and reads no further message.
  A binary message that decodes is displayed and extracted like any decoded message, with
  the same effect as a text message that decodes to the same value.
\<close>

theorem binary_message_not_json:
  assumes "run a loads init evs = Some s" and "tasks s w = Some t" and "phase t = Reading"
  shows "(loads (Binary b) = Inl JSONDecodeError \<longrightarrow>
            raw_text (Binary b) = Inl TypeError
          \<and> (\<exists>s'. step a loads s (Arrives w (Binary b) now) = Some s'
                \<and> tasks s' w = None
                \<and> connected_clients s' = connected_clients s |-| {|w|}
                \<and> w |\<in>| connected_clients s
                \<and> stdout s' = stdout s @
                     [RawHeader (message_count s + 1) (client_id t),
                      ErrorLine (client_id t) TypeError,
                      Disconnected (client_id t) (fcard (connected_clients s'))]
                \<and> wire s' = wire s
                \<and> step a loads s' (Arrives w m now') = None))

       \<and> (\<forall>e. loads (Binary b) = Inl e \<and> e \<noteq> JSONDecodeError \<longrightarrow>
            (\<exists>s'. step a loads s (Arrives w (Binary b) now) = Some s'
                \<and> tasks s' w = None
                \<and> connected_clients s' = connected_clients s |-| {|w|}
                \<and> message_count s' = message_count s + 1
                \<and> stdout s' = stdout s @ fst (except_clauses (client_id t) (Some e)) @
                     [Disconnected (client_id t) (fcard (connected_clients s'))]
                \<and> wire s' = wire s
                \<and> step a loads s' (Arrives w m now') = None))
       \<and> (\<forall>data. loads (Binary b) = Inr data \<longrightarrow>
            display loads n cid (Binary b) =
              ([MessageHeader n cid, Dump data] @ fst (extract_gps utf8_print data),
            snd (extract_gps utf8_print data))
          \<and> (\<forall>x. loads (Text x) = Inr data \<longrightarrow>
                step a loads s (Arrives w (Binary b) now) = step a loads s (Arrives w (Text x) now)))"
proof -
  from assms(1) have ok: "registry_ok s" by (rule registry_ok_reachable)
  from ok assms(2) have mem: "w |\<in>| connected_clients s" by (rule registry_ok_member)
  have p1: "raw_text (Binary b) = Inl TypeError
          \<and> (\<exists>s'. step a loads s (Arrives w (Binary b) now) = Some s'
                \<and> tasks s' w = None
                \<and> connected_clients s' = connected_clients s |-| {|w|}
                \<and> w |\<in>| connected_clients s
                \<and> stdout s' = stdout s @
                     [RawHeader (message_count s + 1) (client_id t),
                      ErrorLine (client_id t) TypeError,
                      Disconnected (client_id t) (fcard (connected_clients s'))]
                \<and> wire s' = wire s
                \<and> step a loads s' (Arrives w m now') = None)"
    if "loads (Binary b) = Inl JSONDecodeError"
  proof -
    let ?s' = "handle_client_message a loads w (client_id t) (Binary b) now s"
    have d: "display loads (message_count s + 1) (client_id t) (Binary b) =
               ([RawHeader (message_count s + 1) (client_id t)], Some TypeError)"
      using that by (rule display_raw_bytes)
    have "step a loads s (Arrives w (Binary b) now) = Some ?s'"
      using assms(2,3) by simp
    moreover have "tasks ?s' w = None" by (simp add: message_tasks d)
    moreover have "connected_clients ?s' = connected_clients s |-| {|w|}"
      by (simp add: message_connected_clients d)
    moreover have "stdout ?s' = stdout s @
                     [RawHeader (message_count s + 1) (client_id t),
                      ErrorLine (client_id t) TypeError,
                      Disconnected (client_id t) (fcard (connected_clients ?s'))]"
      using mem by (simp add: message_stdout message_connected_clients d)
    moreover have "wire ?s' = wire s" by simp
    moreover have "step a loads ?s' (Arrives w m now') = None"
      by (simp add: message_tasks d)
    ultimately show ?thesis using mem by simp
  qed
  have p3: "\<exists>s'. step a loads s (Arrives w (Binary b) now) = Some s'
                \<and> tasks s' w = None
                \<and> connected_clients s' = connected_clients s |-| {|w|}
                \<and> message_count s' = message_count s + 1
                \<and> stdout s' = stdout s @ fst (except_clauses (client_id t) (Some e)) @
                     [Disconnected (client_id t) (fcard (connected_clients s'))]
                \<and> wire s' = wire s
                \<and> step a loads s' (Arrives w m now') = None"
    if "loads (Binary b) = Inl e \<and> e \<noteq> JSONDecodeError" for e
  proof -
    let ?s' = "handle_client_message a loads w (client_id t) (Binary b) now s"
    have d: "display loads (message_count s + 1) (client_id t) (Binary b) = ([], Some e)"
      using that by (simp add: display_def)
    have "step a loads s (Arrives w (Binary b) now) = Some ?s'"
      using assms(2,3) by simp
    moreover have "tasks ?s' w = None" by (simp add: message_tasks d)
    moreover have "connected_clients ?s' = connected_clients s |-| {|w|}"
      by (simp add: message_connected_clients d)
    moreover have "stdout ?s' = stdout s @ fst (except_clauses (client_id t) (Some e)) @
                     [Disconnected (client_id t) (fcard (connected_clients ?s'))]"
      using mem by (simp add: message_stdout message_connected_clients d)
    moreover have "wire ?s' = wire s" and "message_count ?s' = message_count s + 1" by simp_all
    moreover have "step a loads ?s' (Arrives w m now') = None"
      by (simp add: message_tasks d)
    ultimately show ?thesis by simp
  qed
  have p2: "display loads n cid (Binary b) =
              ([MessageHeader n cid, Dump data] @ fst (extract_gps utf8_print data),
            snd (extract_gps utf8_print data))
          \<and> (\<forall>x. loads (Text x) = Inr data \<longrightarrow>
                step a loads s (Arrives w (Binary b) now) = step a loads s (Arrives w (Text x) now))"
    if b: "loads (Binary b) = Inr data" for data
  proof -
    have "step a loads s (Arrives w (Binary b) now) = step a loads s (Arrives w (Text x) now)"
      if x: "loads (Text x) = Inr data" for x
    proof -
      have "display loads k c (Binary b) = display loads k c (Text x)" for k c
        using display_decoded [of loads "Binary b" data k c, OF b]
              display_decoded [of loads "Text x" data k c, OF x] by simp
      then have "handle_client_message a loads w c (Binary b) now s =
                 handle_client_message a loads w c (Text x) now s" for c
        by (simp add: handle_client_message_def)
      then show ?thesis by (simp split: option.splits phase.splits)
    qed
    moreover have "display loads n cid (Binary b) =
              ([MessageHeader n cid, Dump data] @ fst (extract_gps utf8_print data),
            snd (extract_gps utf8_print data))"
      using b by (rule display_decoded)
    ultimately show ?thesis by blast
  qed
  from p1 p2 p3 show ?thesis by blast
qed

theorem binary_message_not_json_witness:
  "run args_plain sample_loads init
     [Connect 1 ''10.0.0.5'' 50000, Connect 2 ''10.0.0.6'' 50001] = Some two_clients
   \<and> tasks two_clients 1 = Some \<lparr>client_id = ''Client-1'', phase = Reading\<rparr>
   \<and> sample_loads (Binary ''hello'') = Inl JSONDecodeError
   \<and> step args_plain sample_loads two_clients (Arrives 1 (Binary ''hello'') ''2024-05-01T10:00:02'') =
       Some \<lparr>connected_clients = {|2|}, message_count = 1,
             tasks = [2 \<mapsto> \<lparr>client_id = ''Client-2'', phase = Reading\<rparr>],
             stdout = stdout two_clients @
               [RawHeader 1 ''Client-1'', ErrorLine ''Client-1'' TypeError,
                Disconnected ''Client-1'' 1],
             wire = [], escaped = []\<rparr>
   \<and> sample_loads (Binary [CHR 0xFF]) = Inl UnicodeDecodeError
   \<and> step args_plain sample_loads two_clients (Arrives 1 (Binary [CHR 0xFF]) ''2024-05-01T10:00:02'') =
       Some \<lparr>connected_clients = {|2|}, message_count = 1,
             tasks = [2 \<mapsto> \<lparr>client_id = ''Client-2'', phase = Reading\<rparr>],
             stdout = stdout two_clients @
               [ErrorLine ''Client-1'' UnicodeDecodeError, Disconnected ''Client-1'' 1],
             wire = [], escaped = []\<rparr>"
proof -
  have r: "run args_plain sample_loads init
     [Connect 1 ''10.0.0.5'' 50000, Connect 2 ''10.0.0.6'' 50001] = Some two_clients"
    by (rule run_two_clients)
  have l: "tasks two_clients 1 = Some \<lparr>client_id = ''Client-1'', phase = Reading\<rparr>"
    by (simp add: two_clients_def)
  have p: "phase \<lparr>client_id = ''Client-1'', phase = Reading\<rparr> = Reading" by simp
  have j: "sample_loads (Binary ''hello'') = Inl JSONDecodeError"
    by (simp add: sample_loads_def)
  from binary_message_not_json [OF r l p, where b = "''hello''"
      and now = "''2024-05-01T10:00:02''" and m = "Text ''ping''" and now' = "''2024-05-01T10:00:03''"
      and n = 1 and cid = "''Client-1''"] j
  obtain s' where st: "step args_plain sample_loads two_clients
        (Arrives 1 (Binary ''hello'') ''2024-05-01T10:00:02'') = Some s'"
    and g: "tasks s' 1 = None"
    and c: "connected_clients s' = connected_clients two_clients |-| {|1|}"
    and o: "stdout s' = stdout two_clients @
                     [RawHeader (message_count two_clients + 1) ''Client-1'',
                      ErrorLine ''Client-1'' TypeError,
                      Disconnected ''Client-1'' (fcard (connected_clients s'))]"
    and w: "wire s' = wire two_clients"
    unfolding task.select_convs by blast
  have "step args_plain sample_loads two_clients
        (Arrives 1 (Binary ''hello'') ''2024-05-01T10:00:02'') =
       Some \<lparr>connected_clients = {|2|}, message_count = 1,
             tasks = [2 \<mapsto> \<lparr>client_id = ''Client-2'', phase = Reading\<rparr>],
             stdout = stdout two_clients @
               [RawHeader 1 ''Client-1'', ErrorLine ''Client-1'' TypeError,
                Disconnected ''Client-1'' 1],
             wire = [], escaped = []\<rparr>"
    by (auto simp add: exec two_clients_def)
  note first = this
  have u: "sample_loads (Binary [CHR 0xFF]) = Inl UnicodeDecodeError"
    by (simp add: sample_loads_def)
  from binary_message_not_json [OF r l p, where b = "[CHR 0xFF]"
      and now = "''2024-05-01T10:00:02''" and m = "Text ''ping''" and now' = "''2024-05-01T10:00:03''"
      and n = 1 and cid = "''Client-1''"] u
  obtain s2 where st2: "step args_plain sample_loads two_clients
        (Arrives 1 (Binary [CHR 0xFF]) ''2024-05-01T10:00:02'') = Some s2"
    and g2: "tasks s2 1 = None"
    and n2: "message_count s2 = message_count two_clients + 1"
    unfolding task.select_convs by blast
  have "step args_plain sample_loads two_clients
        (Arrives 1 (Binary [CHR 0xFF]) ''2024-05-01T10:00:02'') =
       Some \<lparr>connected_clients = {|2|}, message_count = 1,
             tasks = [2 \<mapsto> \<lparr>client_id = ''Client-2'', phase = Reading\<rparr>],
             stdout = stdout two_clients @
               [ErrorLine ''Client-1'' UnicodeDecodeError, Disconnected ''Client-1'' 1],
             wire = [], escaped = []\<rparr>"
    by (auto simp add: exec two_clients_def)
  with first r l j u st g c o w st2 g2 n2 show ?thesis by simp
qed

end
